theory Spec2Isabelle
  imports Main
begin

section \<open>Data model (client.go)\<close>

text \<open>
  Go structs become records. A field \<open>F\<close> of a struct is written with a short prefix
  naming its struct (\<open>item_\<close> for InventoryItem, \<open>srv_\<close> for Server, \<open>req_\<close> for
  ServerOrderRequest, \<open>ord_\<close> for ServerOrderResponse, \<open>os_\<close> for OperatingSystemItem, \<open>key_\<close> for SSHKey, \<open>m_\<close> for
  BareMetalServerResourceModel, \<open>km_\<close> for SSHKeyResourceModel), because several structs
  share field names. Go's \<open>int\<close> and \<open>int64\<close> are modelled as \<open>int\<close>: no modelled
  function does arithmetic on them, they are only compared and copied. Go strings are
  byte sequences, here \<open>string\<close>.

  Of InventoryItem the hardware descriptors (CPU, disk, RAM, NIC), the metadata list and
  the price fields are left out, and so are the prices of OperatingSystemItem: no
  function modelled here reads them.
\<close>

record InventoryItem =
  item_SkuID :: int
  item_Quantity :: int
  item_AutoProvisionQuantity :: int
  item_DatacenterID :: int
  item_RegionID :: int
  item_LocationCode :: string
  item_Status :: string
  item_SkuProductName :: string
  item_HourlyEnabled :: bool

record Server =
  srv_ID :: string
  srv_Hostname :: string
  srv_MacAddress :: string
  srv_PublicIP :: string
  srv_ServiceID :: int
  srv_ServiceDescription :: string
  srv_PlanID :: int
  srv_DatacenterName :: string
  srv_DatacenterID :: int
  srv_LocationID :: int
  srv_FriendlyName :: string
  srv_Vendor :: string
  srv_ServerType :: string
  srv_BillHourly :: bool
  srv_RootPassword :: string

record ServerOrderRequest =
  req_SkuProductName :: string
  req_Quantity :: int
  req_LocationCode :: string
  req_OperatingSystemProductCode :: string
  req_Hostname :: string
  req_BillHourly :: bool
  req_SSHKeyIDs :: "int list"

record ServerOrderResponse =
  ord_OrderServiceIDs :: "int list"

record OperatingSystemItem =
  os_Name :: string
  os_OSType :: string
  os_ProductCode :: string
  os_HourlyEnabled :: bool

text \<open>Of AddonsResponse only \<open>OperatingSystems\<close> is read; licenses and support levels
  are left out.\<close>

record OperatingSystemsAddon =
  osa_Name :: string
  osa_Required :: string
  osa_Products :: "OperatingSystemItem list"

record AddonsResponse =
  addons_OperatingSystems :: OperatingSystemsAddon

record AssignedServer =
  as_ServerID :: string
  as_ServiceID :: int
  as_Hostname :: string
  as_DatacenterName :: string

record SSHKey =
  key_ID :: int
  key_Label :: string
  key_Key :: string
  key_CreatedAt :: int
  key_UpdatedAt :: int
  key_AssignedServers :: "AssignedServer list"

record SSHKeyCreateRequest =
  kreq_PublicKey :: string
  kreq_Label :: string

record SSHKeyCreateResponse =
  kresp_ID :: int

section \<open>The backend and the world\<close>

text \<open>
  Every function of client.go that performs an HTTP exchange (GetInventory, GetAddons,
  OrderServer, GetServers, GetSSHKeys, CreateSSHKey, UpdateServerFriendlyName) is a
  request, a status check and a JSON decoding; its outcome is decided by the backend.
  The model records each such call in a log and takes its outcome from a \<open>backend\<close>:
  a record of functions from the world at the moment of the call (the wall clock, in
  nanoseconds, and the calls made so far, each with the time it was issued at) to the
  outcome, so two calls of the same endpoint may answer differently. An error of such a
  call is its message text.
\<close>

datatype api_call =
    CallGetInventory
  | CallGetAddons string string
  | CallOrderServer ServerOrderRequest
  | CallGetServers
  | CallGetSSHKeys
  | CallCreateSSHKey SSHKeyCreateRequest
  | CallUpdateServerFriendlyName string string

record world =
  now :: int
  calls :: "(int \<times> api_call) list"

datatype ctx_error = Canceled | DeadlineExceeded

record backend =
  ctxErr :: "int \<Rightarrow> ctx_error option"
  getInventory :: "world \<Rightarrow> string + InventoryItem list"
  getAddons :: "string \<Rightarrow> string \<Rightarrow> world \<Rightarrow> string + AddonsResponse"
  orderServer :: "ServerOrderRequest \<Rightarrow> world \<Rightarrow> string + ServerOrderResponse"
  getServers :: "world \<Rightarrow> string + Server list"
  getSSHKeys :: "world \<Rightarrow> string + SSHKey list"
  createSSHKey :: "SSHKeyCreateRequest \<Rightarrow> world \<Rightarrow> string + SSHKeyCreateResponse"
  updateServerFriendlyName :: "string \<Rightarrow> string \<Rightarrow> world \<Rightarrow> string option"
  latency :: "api_call \<Rightarrow> world \<Rightarrow> nat"
  oversleep :: "world \<Rightarrow> nat"

text \<open>
  \<open>ctxErr b t\<close> is \<open>ctx.Err()\<close> at wall-clock time \<open>t\<close> (in nanoseconds): \<open>None\<close>
  while the context is not done. \<open>latency b c w\<close> is the time the call \<open>c\<close> issued in
  world \<open>w\<close> takes; \<open>oversleep b w\<close> is by how much a sleep started in \<open>w\<close> overshoots
  (time.Sleep pauses for at least the duration asked).
\<close>

definition issue :: "backend \<Rightarrow> api_call \<Rightarrow> world \<Rightarrow> world" where
  "issue b c w = w\<lparr>now := now w + int (latency b c w), calls := calls w @ [(now w, c)]\<rparr>"

text \<open>Errors built by the modelled functions: one constructor for each
  \<open>fmt.Errorf\<close> site, carrying its arguments. \<open>ClientError\<close> is an error of an HTTP
  call handed on unchanged, \<open>ContextError\<close> is \<open>ctx.Err()\<close>.\<close>

datatype error =
    ClientError string
  | FailedToGetInventory string
  | SkuNotFoundInLocation string string
  | SkuNotFound string
  | ServerNotFound int
  | FailedToGetSSHKeys string
  | SSHKeyNotFound string
  | ContextError ctx_error
  | ProvisioningTimeout int

definition GetInventory :: "backend \<Rightarrow> world \<Rightarrow> (string + InventoryItem list) \<times> world" where
  "GetInventory b w = (getInventory b w, issue b CallGetInventory w)"

definition GetServers :: "backend \<Rightarrow> world \<Rightarrow> (string + Server list) \<times> world" where
  "GetServers b w = (getServers b w, issue b CallGetServers w)"

definition GetSSHKeys :: "backend \<Rightarrow> world \<Rightarrow> (string + SSHKey list) \<times> world" where
  "GetSSHKeys b w = (getSSHKeys b w, issue b CallGetSSHKeys w)"

definition GetAddons ::
  "backend \<Rightarrow> string \<Rightarrow> string \<Rightarrow> world \<Rightarrow> (string + AddonsResponse) \<times> world" where
  "GetAddons b skuProductName locationCode w =
     (getAddons b skuProductName locationCode w,
      issue b (CallGetAddons skuProductName locationCode) w)"

definition OrderServer ::
  "backend \<Rightarrow> ServerOrderRequest \<Rightarrow> world \<Rightarrow> (string + ServerOrderResponse) \<times> world" where
  "OrderServer b request w = (orderServer b request w, issue b (CallOrderServer request) w)"

definition CreateSSHKey ::
  "backend \<Rightarrow> SSHKeyCreateRequest \<Rightarrow> world \<Rightarrow> (string + SSHKeyCreateResponse) \<times> world" where
  "CreateSSHKey b request w = (createSSHKey b request w, issue b (CallCreateSSHKey request) w)"

definition UpdateServerFriendlyName ::
  "backend \<Rightarrow> string \<Rightarrow> string \<Rightarrow> world \<Rightarrow> string option \<times> world" where
  "UpdateServerFriendlyName b serverID friendlyName w =
     (updateServerFriendlyName b serverID friendlyName w,
      issue b (CallUpdateServerFriendlyName serverID friendlyName) w)"

section \<open>Catalog resolver: FindSKUByProductName (client.go)\<close>

text \<open>The \<open>for _, item := range inventory\<close> loop of FindSKUByProductName; \<open>None\<close> when
  the loop runs to its end.\<close>

fun scanInventory :: "string \<Rightarrow> string \<Rightarrow> InventoryItem list \<Rightarrow> InventoryItem option" where
  "scanInventory productName locationCode [] = None"
| "scanInventory productName locationCode (item # rest) =
     (if item_SkuProductName item = productName then
        (if locationCode \<noteq> [] \<and> item_LocationCode item \<noteq> locationCode
         then scanInventory productName locationCode rest
         else if item_AutoProvisionQuantity item > 0 then Some item
         else scanInventory productName locationCode rest)
      else scanInventory productName locationCode rest)"

definition FindSKUByProductName ::
  "backend \<Rightarrow> string \<Rightarrow> string \<Rightarrow> world \<Rightarrow> (error + InventoryItem) \<times> world" where
  "FindSKUByProductName b productName locationCode w =
     (case GetInventory b w of
        (Inl err, w1) \<Rightarrow> (Inl (FailedToGetInventory err), w1)
      | (Inr inventory, w1) \<Rightarrow>
          (case scanInventory productName locationCode inventory of
             Some item \<Rightarrow> (Inr item, w1)
           | None \<Rightarrow>
               (if locationCode \<noteq> []
                then (Inl (SkuNotFoundInLocation productName locationCode), w1)
                else (Inl (SkuNotFound productName), w1))))"

text \<open>The condition of the specification, used to state the claims: an entry qualifies
  for a request.\<close>

definition qualifies :: "string \<Rightarrow> string \<Rightarrow> InventoryItem \<Rightarrow> bool" where
  "qualifies instanceTypeName locationCode e \<longleftrightarrow>
     item_SkuProductName e = instanceTypeName
     \<and> (item_LocationCode e = locationCode \<or> locationCode = [])
     \<and> item_AutoProvisionQuantity e > 0"

section \<open>Lookups by key (client.go)\<close>

definition GetServerByServiceID ::
  "backend \<Rightarrow> int \<Rightarrow> world \<Rightarrow> (error + Server) \<times> world" where
  "GetServerByServiceID b serviceID w =
     (case GetServers b w of
        (Inl err, w1) \<Rightarrow> (Inl (ClientError err), w1)
      | (Inr servers, w1) \<Rightarrow>
          (case find (\<lambda>server. srv_ServiceID server = serviceID) servers of
             Some server \<Rightarrow> (Inr server, w1)
           | None \<Rightarrow> (Inl (ServerNotFound serviceID), w1)))"

definition GetSSHKeyByLabel ::
  "backend \<Rightarrow> string \<Rightarrow> world \<Rightarrow> (error + SSHKey) \<times> world" where
  "GetSSHKeyByLabel b label w =
     (case GetSSHKeys b w of
        (Inl err, w1) \<Rightarrow> (Inl (FailedToGetSSHKeys err), w1)
      | (Inr sshKeys, w1) \<Rightarrow>
          (case find (\<lambda>key. key_Label key = label) sshKeys of
             Some key \<Rightarrow> (Inr key, w1)
           | None \<Rightarrow> (Inl (SSHKeyNotFound label), w1)))"

section \<open>Provisioning poller: waitForServerProvisioning\<close>

text \<open>Durations are nanoseconds, as \<open>time.Duration\<close>.\<close>

definition Second :: int where
  "Second = 1000000000"

definition Minute :: int where
  "Minute = 60 * Second"

definition Sleep :: "backend \<Rightarrow> int \<Rightarrow> world \<Rightarrow> world" where
  "Sleep b d w = w\<lparr>now := now w + d + int (oversleep b w)\<rparr>"

text \<open>
  The loop \<open>for time.Now().Before(deadline)\<close>: the deadline test, then the
  non-blocking \<open>select\<close> on \<open>ctx.Done()\<close>, then the query, then the 30 second sleep.
  It terminates because every iteration that continues moves the clock forward by at
  least 30 seconds.
\<close>

function waitLoop :: "backend \<Rightarrow> int \<Rightarrow> int \<Rightarrow> world \<Rightarrow> (error + Server) \<times> world" where
  "waitLoop b serviceID deadline w =
     (if now w < deadline then
        (case ctxErr b (now w) of
           Some e \<Rightarrow> (Inl (ContextError e), w)
         | None \<Rightarrow>
             (case GetServerByServiceID b serviceID w of
                (Inr server, w1) \<Rightarrow> (Inr server, w1)
              | (Inl err, w1) \<Rightarrow> waitLoop b serviceID deadline (Sleep b (30 * Second) w1)))
      else (Inl (ProvisioningTimeout serviceID), w))"
  by pat_completeness auto
termination
  by (relation "measure (\<lambda>(b, serviceID, deadline, w). nat (deadline - now w))")
     (auto simp: GetServerByServiceID_def GetServers_def issue_def Sleep_def Second_def
       split: sum.splits option.splits)

declare waitLoop.simps [simp del]

definition waitForServerProvisioning ::
  "backend \<Rightarrow> int \<Rightarrow> int \<Rightarrow> world \<Rightarrow> (error + Server) \<times> world" where
  "waitForServerProvisioning b serviceID timeout w =
     waitLoop b serviceID (now w + timeout) w"

text \<open>One unsuccessful iteration of the loop: the query, then the sleep. It is used to
  name the world at the start of the k-th iteration of a run whose earlier queries all
  failed.\<close>

definition pollStep :: "backend \<Rightarrow> int \<Rightarrow> world \<Rightarrow> world" where
  "pollStep b serviceID w = Sleep b (30 * Second) (snd (GetServerByServiceID b serviceID w))"

section \<open>Plugin framework values and diagnostics\<close>

text \<open>
  The attribute values of the plugin framework (\<open>types.String\<close>, \<open>types.Int64\<close>,
  \<open>types.List\<close>) are null, unknown or known. \<open>ValueString\<close> and \<open>ValueInt64\<close> give
  the zero value for a null or unknown attribute. \<open>ElementsAs\<close> into a string slice with
  \<open>allowUnhandled = false\<close> reports an error unless every element is a known string.
\<close>

datatype tfString = StringNull | StringUnknown | StringValue string

datatype tfInt64 = Int64Null | Int64Unknown | Int64Value int

datatype tfList = ListNull | ListUnknown | ListValue "tfString list"

fun IsNull :: "tfString \<Rightarrow> bool" where
  "IsNull StringNull = True"
| "IsNull _ = False"

fun ValueString :: "tfString \<Rightarrow> string" where
  "ValueString (StringValue s) = s"
| "ValueString _ = []"

fun ValueInt64 :: "tfInt64 \<Rightarrow> int" where
  "ValueInt64 (Int64Value n) = n"
| "ValueInt64 _ = 0"

fun ListIsNull :: "tfList \<Rightarrow> bool" where
  "ListIsNull ListNull = True"
| "ListIsNull _ = False"

fun isKnownString :: "tfString \<Rightarrow> bool" where
  "isKnownString (StringValue s) = True"
| "isKnownString _ = False"

text \<open>The payload of a diagnostic: one constructor for each message built in the
  resources, carrying the values formatted into it.\<close>

datatype detail =
    UnableToValidate string string error
  | NotAvailable string string "string list" "string list" "string \<rightharpoonup> string list"
  | UnableToGetOperatingSystems string string string
  | OperatingSystemNotAvailable string string string "string list"
  | ValueConversionError
  | SSHKeyLabelNotFound string error
  | OrderTimedOut string
  | UnableToOrder string
  | NoServiceIDs ServerOrderResponse
  | ProvisioningIncomplete int error
  | FriendlyNameNotSet string
  | UnableToReadServer int error
  | UnableToCreateSSHKey string
  | UnableToRetrieveSSHKey error

datatype diagnostic = DiagError string detail | DiagWarning string detail

fun isDiagError :: "diagnostic \<Rightarrow> bool" where
  "isDiagError (DiagError summary d) = True"
| "isDiagError (DiagWarning summary d) = False"

definition HasError :: "diagnostic list \<Rightarrow> bool" where
  "HasError ds = list_ex isDiagError ds"

fun ElementsAs :: "tfList \<Rightarrow> diagnostic list \<times> string list" where
  "ElementsAs (ListValue elems) =
     (if list_all isKnownString elems then ([], map ValueString elems)
      else ([DiagError ''Value Conversion Error'' ValueConversionError], []))"
| "ElementsAs ListNull = ([], [])"
| "ElementsAs ListUnknown = ([DiagError ''Value Conversion Error'' ValueConversionError], [])"

text \<open>What a resource operation leaves in its response: the diagnostics, and the state
  when \<open>resp.State.Set\<close> was reached.\<close>

record 'm response =
  Diagnostics :: "diagnostic list"
  State :: "'m option"

definition failed :: "diagnostic list \<Rightarrow> 'm response" where
  "failed ds = \<lparr>Diagnostics = ds, State = None\<rparr>"

section \<open>Server resource\<close>

record BareMetalServerResourceModel =
  m_ID :: tfString
  m_InstanceType :: tfString
  m_Location :: tfString
  m_OperatingSystem :: tfString
  m_Hostname :: tfString
  m_FriendlyName :: tfString
  m_SSHKeyLabels :: tfList
  m_ServiceID :: tfInt64
  m_PublicIP :: tfString
  m_RootPassword :: tfString
  m_ServiceDescription :: tfString
  m_PlanID :: tfInt64
  m_DatacenterName :: tfString
  m_DatacenterID :: tfInt64
  m_LocationID :: tfInt64
  m_ServerTypeInternal :: tfString

definition updateModelFromServer ::
  "BareMetalServerResourceModel \<Rightarrow> Server \<Rightarrow> BareMetalServerResourceModel" where
  "updateModelFromServer data server =
     (let data = data\<lparr>m_ID := StringValue (srv_ID server)\<rparr>;
          data = data\<lparr>m_ServiceID := Int64Value (srv_ServiceID server)\<rparr>;
          data = data\<lparr>m_PublicIP := StringValue (srv_PublicIP server)\<rparr>;
          data = data\<lparr>m_RootPassword := StringValue (srv_RootPassword server)\<rparr>;
          data = data\<lparr>m_ServiceDescription := StringValue (srv_ServiceDescription server)\<rparr>;
          data = data\<lparr>m_PlanID := Int64Value (srv_PlanID server)\<rparr>;
          data = data\<lparr>m_DatacenterName := StringValue (srv_DatacenterName server)\<rparr>;
          data = data\<lparr>m_DatacenterID := Int64Value (srv_DatacenterID server)\<rparr>;
          data = data\<lparr>m_LocationID := Int64Value (srv_LocationID server)\<rparr>;
          data = data\<lparr>m_ServerTypeInternal := StringValue (srv_ServerType server)\<rparr>;
          data = (if IsNull (m_Hostname data) \<and> srv_Hostname server \<noteq> []
                  then data\<lparr>m_Hostname := StringValue (srv_Hostname server)\<rparr> else data);
          data = (if IsNull (m_FriendlyName data) \<and> srv_FriendlyName server \<noteq> []
                  then data\<lparr>m_FriendlyName := StringValue (srv_FriendlyName server)\<rparr> else data)
      in data)"

text \<open>The loop of Create that collects the alternatives from the inventory
  (\<open>availableTypes\<close>, \<open>availableLocations\<close>, \<open>typeLocationMap\<close>).\<close>

fun scanAlternatives ::
  "string \<Rightarrow> string \<Rightarrow> InventoryItem list \<Rightarrow> string list \<Rightarrow> string list
     \<Rightarrow> (string \<rightharpoonup> string list) \<Rightarrow> string list \<times> string list \<times> (string \<rightharpoonup> string list)" where
  "scanAlternatives instanceType location [] availableTypes availableLocations typeLocationMap =
     (availableTypes, availableLocations, typeLocationMap)"
| "scanAlternatives instanceType location (item # rest) availableTypes availableLocations
       typeLocationMap =
     (if item_AutoProvisionQuantity item > 0 then
        scanAlternatives instanceType location rest
          (if item_LocationCode item = location
           then availableTypes @ [item_SkuProductName item] else availableTypes)
          (if item_SkuProductName item = instanceType
           then availableLocations @ [item_LocationCode item] else availableLocations)
          (typeLocationMap(item_SkuProductName item \<mapsto>
             (case typeLocationMap (item_SkuProductName item) of
                None \<Rightarrow> [] | Some locs \<Rightarrow> locs) @ [item_LocationCode item]))
      else scanAlternatives instanceType location rest availableTypes availableLocations
             typeLocationMap)"

text \<open>The loop of Create over the operating systems on offer: every name seen is
  collected, and the loop breaks at the first name equal to the one asked for.\<close>

fun scanOperatingSystems ::
  "string \<Rightarrow> OperatingSystemItem list \<Rightarrow> string list
     \<Rightarrow> OperatingSystemItem option \<times> string list" where
  "scanOperatingSystems osName [] availableOSNames = (None, availableOSNames)"
| "scanOperatingSystems osName (osOption # rest) availableOSNames =
     (if os_Name osOption = osName
      then (Some osOption, availableOSNames @ [os_Name osOption])
      else scanOperatingSystems osName rest (availableOSNames @ [os_Name osOption]))"

text \<open>The loop of Create over the SSH key labels.\<close>

fun resolveSSHKeyLabels ::
  "backend \<Rightarrow> string list \<Rightarrow> int list \<Rightarrow> world \<Rightarrow> ((string \<times> error) + int list) \<times> world" where
  "resolveSSHKeyLabels b [] sshKeyIDs w = (Inr sshKeyIDs, w)"
| "resolveSSHKeyLabels b (label # rest) sshKeyIDs w =
     (case GetSSHKeyByLabel b label w of
        (Inl err, w1) \<Rightarrow> (Inl (label, err), w1)
      | (Inr sshKey, w1) \<Rightarrow> resolveSSHKeyLabels b rest (sshKeyIDs @ [key_ID sshKey]) w1)"

text \<open>\<open>strings.Contains\<close>.\<close>

fun HasPrefix :: "string \<Rightarrow> string \<Rightarrow> bool" where
  "HasPrefix s [] = True"
| "HasPrefix [] (c # p) = False"
| "HasPrefix (x # s) (c # p) = (x = c \<and> HasPrefix s p)"

fun Contains :: "string \<Rightarrow> string \<Rightarrow> bool" where
  "Contains [] substr = (substr = [])"
| "Contains (x # s) substr = (HasPrefix (x # s) substr \<or> Contains s substr)"

text \<open>
  Create of the server resource, in the three parts it is written in. The model starts
  after the plan has been read into \<open>data\<close>. \<open>Create_order\<close> is the part from
  \<open>r.client.OrderServer(orderReq)\<close> to the end; \<open>ds\<close> are the diagnostics collected
  so far. OrderServer never returns a nil response without an error, so the
  \<open>orderResp == nil\<close> branch has no counterpart.
\<close>

definition Create_order ::
  "backend \<Rightarrow> BareMetalServerResourceModel \<Rightarrow> diagnostic list \<Rightarrow> ServerOrderRequest \<Rightarrow> world
     \<Rightarrow> BareMetalServerResourceModel response \<times> world" where
  "Create_order b data ds orderReq w =
     (case OrderServer b orderReq w of
        (Inl err, w1) \<Rightarrow>
          (if Contains err ''context deadline exceeded'' \<or> Contains err ''Client.Timeout exceeded''
           then (failed (ds @ [DiagError ''Server Order Timeout'' (OrderTimedOut err)]), w1)
           else (failed (ds @ [DiagError ''Server Order Failed'' (UnableToOrder err)]), w1))
      | (Inr orderResp, w1) \<Rightarrow>
          (case ord_OrderServiceIDs orderResp of
             [] \<Rightarrow> (failed (ds @ [DiagError ''Server Order Failed'' (NoServiceIDs orderResp)]), w1)
           | serviceID # others \<Rightarrow>
               (case waitForServerProvisioning b serviceID (30 * Minute) w1 of
                  (Inl err, w2) \<Rightarrow>
                    (failed (ds @ [DiagError ''Server Provisioning Timeout''
                                     (ProvisioningIncomplete serviceID err)]), w2)
                | (Inr server, w2) \<Rightarrow>
                    (if \<not> IsNull (m_FriendlyName data) then
                       (case UpdateServerFriendlyName b (srv_ID server)
                               (ValueString (m_FriendlyName data)) w2 of
                          (Some err, w3) \<Rightarrow>
                            (\<lparr>Diagnostics = ds @ [DiagWarning ''Friendly Name Update Failed''
                                                     (FriendlyNameNotSet err)],
                              State = Some (updateModelFromServer data server)\<rparr>, w3)
                        | (None, w3) \<Rightarrow>
                            (\<lparr>Diagnostics = ds,
                              State = Some (updateModelFromServer data server)\<rparr>, w3))
                     else (\<lparr>Diagnostics = ds,
                            State = Some (updateModelFromServer data server)\<rparr>, w2)))))"

text \<open>\<open>Create_sshKeys\<close> is the part that turns the labels into key identifiers and
  then orders.\<close>

definition Create_sshKeys ::
  "backend \<Rightarrow> BareMetalServerResourceModel \<Rightarrow> ServerOrderRequest \<Rightarrow> world
     \<Rightarrow> BareMetalServerResourceModel response \<times> world" where
  "Create_sshKeys b data orderReq w =
     (if \<not> ListIsNull (m_SSHKeyLabels data) then
        (case ElementsAs (m_SSHKeyLabels data) of
           (ds, sshKeyLabels) \<Rightarrow>
             (if HasError ds then (failed ds, w)
              else
                (case resolveSSHKeyLabels b sshKeyLabels [] w of
                   (Inl (label, err), w1) \<Rightarrow>
                     (failed (ds @ [DiagError ''SSH Key Not Found''
                                      (SSHKeyLabelNotFound label err)]), w1)
                 | (Inr sshKeyIDs, w1) \<Rightarrow>
                     Create_order b data ds
                       (if length sshKeyIDs > 0 then orderReq\<lparr>req_SSHKeyIDs := sshKeyIDs\<rparr>
                        else orderReq) w1)))
      else Create_order b data [] orderReq w)"

definition Create ::
  "backend \<Rightarrow> BareMetalServerResourceModel \<Rightarrow> world
     \<Rightarrow> BareMetalServerResourceModel response \<times> world" where
  "Create b data w =
     (let instanceType = ValueString (m_InstanceType data);
          location = ValueString (m_Location data);
          osName = ValueString (m_OperatingSystem data)
      in case FindSKUByProductName b instanceType location w of
           (Inl err, w1) \<Rightarrow>
             (case GetInventory b w1 of
                (Inl invErr, w2) \<Rightarrow>
                  (failed [DiagError ''Instance Type or Location Invalid''
                             (UnableToValidate instanceType location err)], w2)
              | (Inr inventory, w2) \<Rightarrow>
                  (case scanAlternatives instanceType location inventory [] [] Map.empty of
                     (availableTypes, availableLocations, typeLocationMap) \<Rightarrow>
                       (failed [DiagError ''Invalid Instance Type and Location Combination''
                                  (NotAvailable instanceType location availableTypes
                                     availableLocations typeLocationMap)], w2)))
         | (Inr sku, w1) \<Rightarrow>
             (case GetAddons b instanceType location w1 of
                (Inl osErr, w2) \<Rightarrow>
                  (failed [DiagError ''Unable to Retrieve Operating System Options''
                             (UnableToGetOperatingSystems instanceType location osErr)], w2)
              | (Inr addons, w2) \<Rightarrow>
                  (case scanOperatingSystems osName
                          (osa_Products (addons_OperatingSystems addons)) [] of
                     (None, availableOSNames) \<Rightarrow>
                       (failed [DiagError ''Invalid Operating System''
                                  (OperatingSystemNotAvailable osName instanceType location
                                     availableOSNames)], w2)
                   | (Some os, availableOSNames) \<Rightarrow>
                       (let orderReq =
                              \<lparr>req_SkuProductName = instanceType,
                               req_Quantity = 1,
                               req_LocationCode = location,
                               req_OperatingSystemProductCode = os_ProductCode os,
                               req_Hostname = [],
                               req_BillHourly = True,
                               req_SSHKeyIDs = []\<rparr>;
                            orderReq =
                              (if \<not> IsNull (m_Hostname data)
                               then orderReq\<lparr>req_Hostname := ValueString (m_Hostname data)\<rparr>
                               else orderReq)
                        in Create_sshKeys b data orderReq w2))))"

text \<open>Read of the server resource, after the prior state has been read into \<open>data\<close>.\<close>

definition Read ::
  "backend \<Rightarrow> BareMetalServerResourceModel \<Rightarrow> world
     \<Rightarrow> BareMetalServerResourceModel response \<times> world" where
  "Read b data w =
     (let serviceID = ValueInt64 (m_ServiceID data)
      in case GetServerByServiceID b serviceID w of
           (Inl err, w1) \<Rightarrow>
             (failed [DiagError ''Client Error'' (UnableToReadServer serviceID err)], w1)
         | (Inr server, w1) \<Rightarrow>
             (\<lparr>Diagnostics = [], State = Some (updateModelFromServer data server)\<rparr>, w1))"

section \<open>SSH key resource (ssh_key_resource.go)\<close>

record SSHKeyResourceModel =
  km_ID :: tfInt64
  km_Label :: tfString
  km_PublicKey :: tfString
  km_CreatedAt :: tfInt64
  km_UpdatedAt :: tfInt64

definition updateModelFromSSHKey :: "SSHKeyResourceModel \<Rightarrow> SSHKey \<Rightarrow> SSHKeyResourceModel" where
  "updateModelFromSSHKey data sshKey =
     data\<lparr>km_ID := Int64Value (key_ID sshKey),
          km_Label := StringValue (key_Label sshKey),
          km_PublicKey := StringValue (key_Key sshKey),
          km_CreatedAt := Int64Value (key_CreatedAt sshKey),
          km_UpdatedAt := Int64Value (key_UpdatedAt sshKey)\<rparr>"

text \<open>Create of the SSH key resource, after the plan has been read into \<open>data\<close>.\<close>

definition SSHKey_Create ::
  "backend \<Rightarrow> SSHKeyResourceModel \<Rightarrow> world \<Rightarrow> SSHKeyResourceModel response \<times> world" where
  "SSHKey_Create b data w =
     (let label = ValueString (km_Label data);
          publicKey = ValueString (km_PublicKey data);
          createReq = \<lparr>kreq_PublicKey = publicKey, kreq_Label = label\<rparr>
      in case CreateSSHKey b createReq w of
           (Inl err, w1) \<Rightarrow>
             (failed [DiagError ''SSH Key Creation Failed'' (UnableToCreateSSHKey err)], w1)
         | (Inr created, w1) \<Rightarrow>
             (case GetSSHKeyByLabel b label w1 of
                (Inl err, w2) \<Rightarrow>
                  (failed [DiagError ''SSH Key Retrieval Failed''
                             (UnableToRetrieveSSHKey err)], w2)
              | (Inr sshKey, w2) \<Rightarrow>
                  (\<lparr>Diagnostics = [], State = Some (updateModelFromSSHKey data sshKey)\<rparr>, w2)))"

section \<open>Observations on the call log\<close>

text \<open>The calls a run added to the log, and those among them that are server-list
  queries or order submissions.\<close>

definition newCalls :: "world \<Rightarrow> world \<Rightarrow> (int \<times> api_call) list" where
  "newCalls w w' = drop (length (calls w)) (calls w')"

fun isOrder :: "api_call \<Rightarrow> bool" where
  "isOrder (CallOrderServer request) = True"
| "isOrder _ = False"

definition queriesIssued :: "world \<Rightarrow> world \<Rightarrow> nat" where
  "queriesIssued w w' = length (filter (\<lambda>(t, c). c = CallGetServers) (newCalls w w'))"

definition ordersIssued :: "world \<Rightarrow> world \<Rightarrow> nat" where
  "ordersIssued w w' = length (filter (\<lambda>(t, c). isOrder c) (newCalls w w'))"

text \<open>The world in which the \<open>i\<close>-th label of Create's label loop is looked up, when
  the loop starts in \<open>w\<close>: each earlier lookup was one call of the key list. And the
  world in which Create has passed its two validations: one inventory call and one
  add-on call.\<close>

definition lookupWorld :: "backend \<Rightarrow> world \<Rightarrow> nat \<Rightarrow> world" where
  "lookupWorld b w i = (issue b CallGetSSHKeys ^^ i) w"

definition validated :: "backend \<Rightarrow> BareMetalServerResourceModel \<Rightarrow> world \<Rightarrow> world" where
  "validated b data w =
     issue b (CallGetAddons (ValueString (m_InstanceType data)) (ValueString (m_Location data)))
       (issue b CallGetInventory w)"

text \<open>Create passes its two validations in \<open>w\<close> and selects the operating system
  \<open>os\<close>: the resolution of the plan's type and location succeeds, the add-ons are
  fetched, and \<open>os\<close> is the first operating system on offer with the plan's name.\<close>

definition passesValidation ::
  "backend \<Rightarrow> BareMetalServerResourceModel \<Rightarrow> world \<Rightarrow> OperatingSystemItem \<Rightarrow> bool" where
  "passesValidation b data w os \<longleftrightarrow>
     (case fst (FindSKUByProductName b (ValueString (m_InstanceType data))
                  (ValueString (m_Location data)) w) of
        Inl err \<Rightarrow> False
      | Inr sku \<Rightarrow>
          (case getAddons b (ValueString (m_InstanceType data)) (ValueString (m_Location data))
                  (issue b CallGetInventory w) of
             Inl osErr \<Rightarrow> False
           | Inr addons \<Rightarrow>
               fst (scanOperatingSystems (ValueString (m_OperatingSystem data))
                      (osa_Products (addons_OperatingSystems addons)) []) = Some os))"

text \<open>Every label of \<open>labels\<close> is listed when Create looks it up, the lookups
  starting in \<open>w\<close>, and \<open>ids\<close> are, label by label, the identifiers of the first
  listed keys with these labels.\<close>

definition resolvesTo :: "backend \<Rightarrow> world \<Rightarrow> string list \<Rightarrow> int list \<Rightarrow> bool" where
  "resolvesTo b w labels ids \<longleftrightarrow>
     length ids = length labels
     \<and> (\<forall>i < length labels.
           case getSSHKeys b (lookupWorld b w i) of
             Inl err \<Rightarrow> False
           | Inr keys \<Rightarrow>
               (case find (\<lambda>k. key_Label k = labels ! i) keys of
                  None \<Rightarrow> False
                | Some key \<Rightarrow> ids ! i = key_ID key))"

text \<open>The order request that Create builds for a plan, the selected operating system
  and the resolved key identifiers, written out for the statements.\<close>

definition orderRequest ::
  "BareMetalServerResourceModel \<Rightarrow> OperatingSystemItem \<Rightarrow> int list \<Rightarrow> ServerOrderRequest" where
  "orderRequest data os ids =
     \<lparr>req_SkuProductName = ValueString (m_InstanceType data),
      req_Quantity = 1,
      req_LocationCode = ValueString (m_Location data),
      req_OperatingSystemProductCode = os_ProductCode os,
      req_Hostname = (if IsNull (m_Hostname data) then [] else ValueString (m_Hostname data)),
      req_BillHourly = True,
      req_SSHKeyIDs = ids\<rparr>"

text \<open>The world in which Create submits its order, when the validations pass in
  \<open>w\<close> and every label resolves: after the validations and one lookup per label.\<close>

definition orderWorld ::
  "backend \<Rightarrow> BareMetalServerResourceModel \<Rightarrow> world \<Rightarrow> string list \<Rightarrow> world" where
  "orderWorld b data w labels = lookupWorld b (validated b data w) (length labels)"

text \<open>A type and location pair appears in an inventory with a positive
  auto-provisionable quantity.\<close>

definition available :: "InventoryItem list \<Rightarrow> string \<Rightarrow> string \<Rightarrow> bool" where
  "available inventory instanceType location \<longleftrightarrow>
     (\<exists>e \<in> set inventory. item_SkuProductName e = instanceType
        \<and> item_LocationCode e = location \<and> item_AutoProvisionQuantity e > 0)"

section \<open>Example values\<close>

text \<open>Concrete inventory entries and backends for the examples.\<close>

definition mkItem :: "string \<Rightarrow> string \<Rightarrow> int \<Rightarrow> InventoryItem" where
  "mkItem name location qty =
     \<lparr>item_SkuID = 1, item_Quantity = qty, item_AutoProvisionQuantity = qty,
      item_DatacenterID = 1, item_RegionID = 1, item_LocationCode = location,
      item_Status = ''active'', item_SkuProductName = name, item_HourlyEnabled = True\<rparr>"

definition idleBackend :: backend where
  "idleBackend =
     \<lparr>ctxErr = (\<lambda>_. None),
      getInventory = (\<lambda>_. Inr []),
      getAddons = (\<lambda>_ _ _. Inl ''no addons''),
      orderServer = (\<lambda>_ _. Inl ''no order''),
      getServers = (\<lambda>_. Inr []),
      getSSHKeys = (\<lambda>_. Inr []),
      createSSHKey = (\<lambda>_ _. Inl ''no create''),
      updateServerFriendlyName = (\<lambda>_ _ _. None),
      latency = (\<lambda>_ _. 0),
      oversleep = (\<lambda>_. 0)\<rparr>"

definition world0 :: world where
  "world0 = \<lparr>now = 0, calls = []\<rparr>"

definition exampleInventory :: "InventoryItem list" where
  "exampleInventory = [mkItem ''c1.small'' ''NYC1'' 3, mkItem ''c1.small'' ''ORD1'' 0]"

definition inventoryBackend :: "InventoryItem list \<Rightarrow> backend" where
  "inventoryBackend inventory = idleBackend\<lparr>getInventory := (\<lambda>_. Inr inventory)\<rparr>"

definition mkServer :: "string \<Rightarrow> int \<Rightarrow> Server" where
  "mkServer ident serviceID =
     \<lparr>srv_ID = ident, srv_Hostname = ''host-'' @ ident, srv_MacAddress = ''00:00:00:00:00:01'',
      srv_PublicIP = ''192.0.2.10'', srv_ServiceID = serviceID,
      srv_ServiceDescription = ''c1.small'', srv_PlanID = 7, srv_DatacenterName = ''NYC1'',
      srv_DatacenterID = 3, srv_LocationID = 4, srv_FriendlyName = [], srv_Vendor = ''acme'',
      srv_ServerType = ''bare-metal'', srv_BillHourly = True, srv_RootPassword = ''secret''\<rparr>"

text \<open>A context cancelled at second 60 and never before.\<close>

definition cancelledAt60 :: backend where
  "cancelledAt60 = idleBackend\<lparr>ctxErr := (\<lambda>t. if 60 * Second \<le> t then Some Canceled else None)\<rparr>"

text \<open>A server list without service 500 until second 90, and with it from then on: the
  first three polls of a wait started at second 0 do not find the server, the fourth
  does.\<close>

definition lateBackend :: backend where
  "lateBackend = idleBackend\<lparr>getServers :=
     (\<lambda>w. if now w < 90 * Second then Inr [mkServer ''srv-1'' 499]
          else Inr [mkServer ''srv-1'' 499, mkServer ''srv-2'' 500])\<rparr>"

definition promptBackend :: backend where
  "promptBackend = idleBackend\<lparr>getServers :=
     (\<lambda>w. Inr [mkServer ''srv-1'' 499, mkServer ''srv-2'' 500])\<rparr>"

definition mkKey :: "int \<Rightarrow> string \<Rightarrow> string \<Rightarrow> SSHKey" where
  "mkKey ident label key =
     \<lparr>key_ID = ident, key_Label = label, key_Key = key, key_CreatedAt = 1700000000,
      key_UpdatedAt = 1700000000, key_AssignedServers = []\<rparr>"

definition ubuntu :: OperatingSystemItem where
  "ubuntu = \<lparr>os_Name = ''Ubuntu 24.04'', os_OSType = ''linux'',
             os_ProductCode = ''UBUNTU_24_04'', os_HourlyEnabled = True\<rparr>"

definition keyDeploy :: SSHKey where
  "keyDeploy = mkKey 3 ''deploy'' ''ssh-ed25519 AAAA deploy@host''"

text \<open>A backend on which the validations of \<open>plan0\<close> pass, with the given key list
  and the given service identifiers as the answer to an order.\<close>

definition shopBackend :: "SSHKey list \<Rightarrow> int list \<Rightarrow> backend" where
  "shopBackend keys serviceIDs =
     idleBackend\<lparr>
       getInventory := (\<lambda>_. Inr [mkItem ''c1.small'' ''ORD1'' 2]),
       getAddons := (\<lambda>_ _ _. Inr \<lparr>addons_OperatingSystems =
          \<lparr>osa_Name = ''Operating Systems'', osa_Required = ''yes'',
           osa_Products = [ubuntu]\<rparr>\<rparr>),
       getSSHKeys := (\<lambda>_. Inr keys),
       orderServer := (\<lambda>_ _. Inr \<lparr>ord_OrderServiceIDs = serviceIDs\<rparr>),
       getServers := (\<lambda>_. Inr [mkServer ''srv-1'' 499, mkServer ''srv-2'' 500])\<rparr>"

definition orderReq0 :: ServerOrderRequest where
  "orderReq0 =
     \<lparr>req_SkuProductName = ''c1.small'', req_Quantity = 1, req_LocationCode = ''ORD1'',
      req_OperatingSystemProductCode = ''UBUNTU_24_04'', req_Hostname = [],
      req_BillHourly = True, req_SSHKeyIDs = []\<rparr>"

text \<open>A backend that accepts the creation of a key and then lists it with the trailing
  line feed of the submitted key removed.\<close>

definition trimmingBackend :: backend where
  "trimmingBackend =
     idleBackend\<lparr>
       createSSHKey := (\<lambda>_ _. Inr \<lparr>kresp_ID = 8\<rparr>),
       getSSHKeys := (\<lambda>_. Inr [mkKey 8 ''deploy'' ''ssh-ed25519 AAAA deploy@host''])\<rparr>"

definition keyPlan :: SSHKeyResourceModel where
  "keyPlan =
     \<lparr>km_ID = Int64Unknown, km_Label = StringValue ''deploy'',
      km_PublicKey = StringValue (''ssh-ed25519 AAAA deploy@host'' @ [CHR 0x0A]),
      km_CreatedAt = Int64Unknown, km_UpdatedAt = Int64Unknown\<rparr>"

definition plan0 :: BareMetalServerResourceModel where
  "plan0 =
     \<lparr>m_ID = StringUnknown, m_InstanceType = StringValue ''c1.small'',
      m_Location = StringValue ''ORD1'', m_OperatingSystem = StringValue ''Ubuntu 24.04'',
      m_Hostname = StringNull, m_FriendlyName = StringValue ''web'',
      m_SSHKeyLabels = ListValue [StringValue ''deploy''],
      m_ServiceID = Int64Unknown, m_PublicIP = StringUnknown, m_RootPassword = StringUnknown,
      m_ServiceDescription = StringUnknown, m_PlanID = Int64Unknown,
      m_DatacenterName = StringUnknown, m_DatacenterID = Int64Unknown,
      m_LocationID = Int64Unknown, m_ServerTypeInternal = StringUnknown\<rparr>"

text \<open>The plan with a second label, \<open>ops\<close>.\<close>

definition plan1 :: BareMetalServerResourceModel where
  "plan1 = plan0\<lparr>m_SSHKeyLabels := ListValue [StringValue ''deploy'', StringValue ''ops'']\<rparr>"

section \<open>Catalog resolver: properties\<close>

lemma scanInventory_find:
  "scanInventory productName locationCode inventory
     = find (qualifies productName locationCode) inventory"
  by (induction inventory) (auto simp: qualifies_def)

lemma FindSKUByProductName_snapshot:
  assumes "getInventory b w = Inr inventory"
  shows "fst (FindSKUByProductName b productName locationCode w) =
     (case find (qualifies productName locationCode) inventory of
        Some item \<Rightarrow> Inr item
      | None \<Rightarrow> Inl (if locationCode \<noteq> [] then SkuNotFoundInLocation productName locationCode
                     else SkuNotFound productName))"
  using assms
  by (simp add: FindSKUByProductName_def GetInventory_def scanInventory_find
      split: option.splits)

text \<open>
  Claim C1. On a fetched inventory snapshot, FindSKUByProductName returns an item if and
  only if some entry of the snapshot has the requested product name, the requested
  location code (or the request's location code is empty) and an auto-provisionable
  quantity above 0; the item returned is the first such entry in snapshot order, and
  when there is none the result is an error.
\<close>

theorem FindSKUByProductName_first_qualifying:
  assumes "getInventory b w = Inr inventory"
  shows "((\<exists>item. fst (FindSKUByProductName b instanceTypeName locationCode w) = Inr item)
            \<longleftrightarrow> (\<exists>e \<in> set inventory.
                   item_SkuProductName e = instanceTypeName
                   \<and> (item_LocationCode e = locationCode \<or> locationCode = [])
                   \<and> item_AutoProvisionQuantity e > 0))
       \<and> (\<forall>item. fst (FindSKUByProductName b instanceTypeName locationCode w) = Inr item
            \<longrightarrow> (\<exists>i < length inventory. inventory ! i = item
                   \<and> qualifies instanceTypeName locationCode item
                   \<and> (\<forall>j < i. \<not> qualifies instanceTypeName locationCode (inventory ! j))))
       \<and> ((\<forall>e \<in> set inventory. \<not> qualifies instanceTypeName locationCode e)
            \<longrightarrow> (\<exists>err. fst (FindSKUByProductName b instanceTypeName locationCode w) = Inl err))"
proof -
  let ?r = "fst (FindSKUByProductName b instanceTypeName locationCode w)"
  let ?q = "qualifies instanceTypeName locationCode"
  note r = FindSKUByProductName_snapshot [OF assms, of instanceTypeName locationCode]
  have iff: "(\<exists>item. ?r = Inr item) \<longleftrightarrow> (\<exists>e \<in> set inventory. ?q e)"
  proof (cases "find ?q inventory")
    case None
    with r have "\<exists>err. ?r = Inl err" by simp
    moreover from None have "\<forall>e \<in> set inventory. \<not> ?q e" by (simp add: find_None_iff)
    ultimately show ?thesis by auto
  next
    case (Some item)
    with r have "?r = Inr item" by simp
    moreover from Some have "item \<in> set inventory \<and> ?q item"
      by (auto simp: find_Some_iff)
    ultimately show ?thesis by blast
  qed
  have first: "\<exists>i < length inventory. inventory ! i = item \<and> ?q item
                 \<and> (\<forall>j < i. \<not> ?q (inventory ! j))" if "?r = Inr item" for item
  proof -
    from that r have "find ?q inventory = Some item"
      by (cases "find ?q inventory") simp_all
    then show ?thesis by (auto simp: find_Some_iff)
  qed
  have none: "\<exists>err. ?r = Inl err" if "\<forall>e \<in> set inventory. \<not> ?q e"
  proof -
    from that have "find ?q inventory = None" by (simp add: find_None_iff)
    with r show ?thesis by simp
  qed
  from iff first none show ?thesis
    unfolding qualifies_def by blast
qed

theorem FindSKUByProductName_first_qualifying_witness:
  "fst (FindSKUByProductName (idleBackend\<lparr>getInventory := (\<lambda>_. Inr exampleInventory)\<rparr>)
          ''c1.small'' [] world0) = Inr (mkItem ''c1.small'' ''NYC1'' 3)
   \<and> isl (fst (FindSKUByProductName (idleBackend\<lparr>getInventory := (\<lambda>_. Inr exampleInventory)\<rparr>)
          ''c1.small'' ''ORD1'' world0))"
proof -
  let ?b = "idleBackend\<lparr>getInventory := (\<lambda>_. Inr exampleInventory)\<rparr>"
  have snap: "getInventory ?b world0 = Inr exampleInventory" by simp
  have q: "qualifies ''c1.small'' [] (mkItem ''c1.small'' ''NYC1'' 3)"
    by (simp add: qualifies_def mkItem_def)
  from FindSKUByProductName_first_qualifying [OF snap, of "''c1.small''" "[]"] q
  obtain item where item: "fst (FindSKUByProductName ?b ''c1.small'' [] world0) = Inr item"
    and ex: "\<exists>i < length exampleInventory. exampleInventory ! i = item
               \<and> qualifies ''c1.small'' [] item
               \<and> (\<forall>j < i. \<not> qualifies ''c1.small'' [] (exampleInventory ! j))"
    unfolding exampleInventory_def qualifies_def mkItem_def by fastforce
  from ex obtain i where i: "i < length exampleInventory" "exampleInventory ! i = item"
    and least: "\<forall>j < i. \<not> qualifies ''c1.small'' [] (exampleInventory ! j)" by blast
  have "i = 0"
  proof (rule ccontr)
    assume "i \<noteq> 0"
    then have "0 < i" by simp
    with least have "\<not> qualifies ''c1.small'' [] (exampleInventory ! 0)" by blast
    then show False by (simp add: exampleInventory_def q)
  qed
  with i have "item = mkItem ''c1.small'' ''NYC1'' 3" by (simp add: exampleInventory_def)
  with item have one: "fst (FindSKUByProductName ?b ''c1.small'' [] world0)
                         = Inr (mkItem ''c1.small'' ''NYC1'' 3)" by simp
  have "\<forall>e \<in> set exampleInventory. \<not> qualifies ''c1.small'' ''ORD1'' e"
    by (simp add: exampleInventory_def qualifies_def mkItem_def)
  with FindSKUByProductName_first_qualifying [OF snap, of "''c1.small''" "''ORD1''"]
  have two: "\<exists>err. fst (FindSKUByProductName ?b ''c1.small'' ''ORD1'' world0) = Inl err"
    by blast
  from one two show ?thesis by auto
qed

section \<open>Catalog resolver: the error of a failed resolution\<close>

lemma FindSKUByProductName_cases:
  "fst (FindSKUByProductName b productName locationCode w) =
     (case getInventory b w of
        Inl err \<Rightarrow> Inl (FailedToGetInventory err)
      | Inr inventory \<Rightarrow>
          (case find (qualifies productName locationCode) inventory of
             Some item \<Rightarrow> Inr item
           | None \<Rightarrow> Inl (if locationCode \<noteq> [] then SkuNotFoundInLocation productName locationCode
                          else SkuNotFound productName)))"
  by (simp add: FindSKUByProductName_def GetInventory_def scanInventory_find
      split: option.splits sum.splits)

text \<open>
  Claim C5, as stated, fails: the error of a failed resolution does not tell "no entry
  with that name" from "entry exists but no location or quantity match". An empty
  inventory and an inventory whose only \<open>c1.small\<close> entry at \<open>NYC1\<close> is sold out give
  the same error for the request (\<open>c1.small\<close>, \<open>NYC1\<close>).
\<close>

theorem FindSKUByProductName_same_error_counterexample:
  "getInventory idleBackend world0 = Inr []
   \<and> getInventory (inventoryBackend [mkItem ''c1.small'' ''NYC1'' 0]) world0
       = Inr [mkItem ''c1.small'' ''NYC1'' 0]
   \<and> fst (FindSKUByProductName idleBackend ''c1.small'' ''NYC1'' world0)
       = Inl (SkuNotFoundInLocation ''c1.small'' ''NYC1'')
   \<and> fst (FindSKUByProductName (inventoryBackend [mkItem ''c1.small'' ''NYC1'' 0])
            ''c1.small'' ''NYC1'' world0)
       = Inl (SkuNotFoundInLocation ''c1.small'' ''NYC1'')"
  by (simp add: FindSKUByProductName_cases inventoryBackend_def idleBackend_def
      qualifies_def mkItem_def)

text \<open>
  Claim C5, amended. When resolution fails on a fetched snapshot, the error is decided by
  the request alone: it names the product and the location when a location code was
  given, and the product alone when the location code is empty. Any two failed
  resolutions of the same request return the same error, whatever the snapshots hold.
\<close>

theorem FindSKUByProductName_error_by_request:
  assumes "getInventory b w = Inr inventory"
    and "fst (FindSKUByProductName b productName locationCode w) = Inl err"
  shows "err = (if locationCode \<noteq> [] then SkuNotFoundInLocation productName locationCode
                else SkuNotFound productName)
         \<and> (\<forall>b' w' inventory' err'.
               getInventory b' w' = Inr inventory'
               \<and> fst (FindSKUByProductName b' productName locationCode w') = Inl err'
               \<longrightarrow> err' = err)"
proof -
  have shape: "e = (if locationCode \<noteq> [] then SkuNotFoundInLocation productName locationCode
                    else SkuNotFound productName)"
    if "getInventory c v = Inr inv" "fst (FindSKUByProductName c productName locationCode v) = Inl e"
    for c v inv e
    using that by (auto simp: FindSKUByProductName_cases split: option.splits)
  from shape [OF assms] shape show ?thesis by metis
qed

theorem FindSKUByProductName_error_by_request_witness:
  "SkuNotFoundInLocation ''c1.small'' ''ORD1''
     = (if ''ORD1'' \<noteq> [] then SkuNotFoundInLocation ''c1.small'' ''ORD1''
        else SkuNotFound ''c1.small'')
   \<and> fst (FindSKUByProductName (inventoryBackend exampleInventory) ''c1.small'' ''ORD1'' world0)
       = Inl (SkuNotFoundInLocation ''c1.small'' ''ORD1'')"
proof -
  have snap: "getInventory (inventoryBackend exampleInventory) world0 = Inr exampleInventory"
    by (simp add: inventoryBackend_def)
  have res: "fst (FindSKUByProductName (inventoryBackend exampleInventory) ''c1.small'' ''ORD1''
                    world0) = Inl (SkuNotFoundInLocation ''c1.small'' ''ORD1'')"
    by (simp add: FindSKUByProductName_cases inventoryBackend_def exampleInventory_def
        qualifies_def mkItem_def)
  from FindSKUByProductName_error_by_request [OF snap res] res show ?thesis by simp
qed

section \<open>Provisioning poller: properties\<close>

lemma waitLoop_elapsed:
  "deadline \<le> now w \<Longrightarrow> waitLoop b serviceID deadline w = (Inl (ProvisioningTimeout serviceID), w)"
  by (simp add: waitLoop.simps)

lemma newCalls_same [simp]: "newCalls w w = []"
  by (simp add: newCalls_def)

text \<open>
  Claim C2. A wait whose deadline has already elapsed (a timeout that is not positive,
  or, for the loop, a deadline not after the clock) returns the timeout error for the
  service identifier and leaves the world as it was: no query is issued, so not more
  than one. It holds whether or not a matching server is present.
\<close>

theorem waitForServerProvisioning_elapsed_deadline:
  "(timeout \<le> 0 \<longrightarrow>
      waitForServerProvisioning b serviceID timeout w = (Inl (ProvisioningTimeout serviceID), w)
      \<and> queriesIssued w (snd (waitForServerProvisioning b serviceID timeout w)) \<le> 1)
   \<and> (deadline \<le> now w \<longrightarrow>
      waitLoop b serviceID deadline w = (Inl (ProvisioningTimeout serviceID), w)
      \<and> queriesIssued w (snd (waitLoop b serviceID deadline w)) \<le> 1)"
  by (simp add: waitForServerProvisioning_def waitLoop_elapsed queriesIssued_def)

theorem waitForServerProvisioning_elapsed_deadline_witness:
  "(0::int) \<le> 0
   \<and> waitForServerProvisioning idleBackend 500 0 world0 = (Inl (ProvisioningTimeout 500), world0)
   \<and> queriesIssued world0 (snd (waitForServerProvisioning idleBackend 500 0 world0)) \<le> 1"
  using waitForServerProvisioning_elapsed_deadline [of 0 idleBackend 500 world0 0]
  by (simp add: queriesIssued_def)

lemma GetServerByServiceID_world:
  "snd (GetServerByServiceID b serviceID w) = issue b CallGetServers w"
  by (simp add: GetServerByServiceID_def GetServers_def split: sum.splits option.splits)

lemma GetServerByServiceID_pair:
  "(fst (GetServerByServiceID b serviceID w), issue b CallGetServers w)
     = GetServerByServiceID b serviceID w"
  by (simp add: prod_eq_iff GetServerByServiceID_world)

lemma GetServerByServiceID_result:
  "fst (GetServerByServiceID b serviceID w) =
     (case getServers b w of
        Inl err \<Rightarrow> Inl (ClientError err)
      | Inr servers \<Rightarrow>
          (case find (\<lambda>server. srv_ServiceID server = serviceID) servers of
             Some server \<Rightarrow> Inr server
           | None \<Rightarrow> Inl (ServerNotFound serviceID)))"
  by (simp add: GetServerByServiceID_def GetServers_def split: sum.splits option.splits)

lemma GetServerByServiceID_serviceID:
  "fst (GetServerByServiceID b serviceID w) = Inr server \<Longrightarrow> srv_ServiceID server = serviceID"
  by (auto simp: GetServerByServiceID_result find_Some_iff split: sum.splits option.splits)

lemma waitLoop_step:
  "waitLoop b serviceID deadline w =
     (if now w < deadline then
        (case ctxErr b (now w) of
           Some e \<Rightarrow> (Inl (ContextError e), w)
         | None \<Rightarrow>
             (case fst (GetServerByServiceID b serviceID w) of
                Inr server \<Rightarrow> (Inr server, issue b CallGetServers w)
              | Inl err \<Rightarrow> waitLoop b serviceID deadline (pollStep b serviceID w)))
      else (Inl (ProvisioningTimeout serviceID), w))"
proof -
  obtain r w1 where r: "GetServerByServiceID b serviceID w = (r, w1)"
    by (cases "GetServerByServiceID b serviceID w")
  then have "w1 = issue b CallGetServers w"
    using GetServerByServiceID_world [of b serviceID w] by simp
  with r show ?thesis
    by (subst waitLoop.simps) (simp add: pollStep_def split: option.splits sum.splits)
qed

lemma calls_issue: "calls (issue b c w) = calls w @ [(now w, c)]"
  by (simp add: issue_def)

lemma calls_pollStep: "calls (pollStep b serviceID w) = calls w @ [(now w, CallGetServers)]"
  by (simp add: pollStep_def Sleep_def GetServerByServiceID_world calls_issue)

lemma waitLoop_calls:
  "\<exists>qs. calls (snd (waitLoop b serviceID deadline w)) = calls w @ qs
        \<and> (\<forall>(t, c) \<in> set qs. c = CallGetServers \<and> ctxErr b t = None \<and> t < deadline)"
proof (induction b serviceID deadline w rule: waitLoop.induct)
  case (1 b serviceID deadline w)
  show ?case
  proof (cases "now w < deadline \<and> ctxErr b (now w) = None")
    case False
    then have "snd (waitLoop b serviceID deadline w) = w"
      by (subst waitLoop_step) (auto split: option.splits)
    then show ?thesis by simp
  next
    case True
    show ?thesis
    proof (cases "fst (GetServerByServiceID b serviceID w)")
      case (Inr server)
      with True have "snd (waitLoop b serviceID deadline w) = issue b CallGetServers w"
        by (subst waitLoop_step) simp
      with True show ?thesis by (simp add: calls_issue)
    next
      case (Inl err)
      note pair = GetServerByServiceID_pair [of b serviceID w]
      from True have live: "now w < deadline" "ctxErr b (now w) = None" by simp_all
      have "\<exists>qs. calls (snd (waitLoop b serviceID deadline (pollStep b serviceID w)))
                    = calls (pollStep b serviceID w) @ qs
                 \<and> (\<forall>(t, c) \<in> set qs. c = CallGetServers \<and> ctxErr b t = None \<and> t < deadline)"
        using "1.IH" [OF live pair Inl]
        by (simp add: pollStep_def GetServerByServiceID_world)
      then obtain qs where qs: "calls (snd (waitLoop b serviceID deadline (pollStep b serviceID w)))
                             = calls (pollStep b serviceID w) @ qs"
        and ok: "\<forall>(t, c) \<in> set qs. c = CallGetServers \<and> ctxErr b t = None \<and> t < deadline"
        by (elim exE conjE)
      from True Inl have "waitLoop b serviceID deadline w
                            = waitLoop b serviceID deadline (pollStep b serviceID w)"
        by (subst waitLoop_step) simp
      with qs have "calls (snd (waitLoop b serviceID deadline w))
                      = calls w @ ((now w, CallGetServers) # qs)"
        by (simp add: calls_pollStep)
      moreover from ok True
      have "\<forall>(t, c) \<in> set ((now w, CallGetServers) # qs).
              c = CallGetServers \<and> ctxErr b t = None \<and> t < deadline"
        by simp
      ultimately show ?thesis by blast
    qed
  qed
qed

lemma waitLoop_success_serviceID:
  "fst (waitLoop b serviceID deadline w) = Inr server \<Longrightarrow> srv_ServiceID server = serviceID"
proof (induction b serviceID deadline w rule: waitLoop.induct)
  case (1 b serviceID deadline w)
  from "1.prems" have live: "now w < deadline" "ctxErr b (now w) = None"
    by (subst (asm) waitLoop_step, auto split: if_splits option.splits)+
  show ?case
  proof (cases "fst (GetServerByServiceID b serviceID w)")
    case (Inr found)
    with live "1.prems" have "found = server"
      by (subst (asm) waitLoop_step) simp
    with Inr show ?thesis by (simp add: GetServerByServiceID_serviceID)
  next
    case (Inl err)
    note pair = GetServerByServiceID_pair [of b serviceID w]
    from live Inl "1.prems"
    have "fst (waitLoop b serviceID deadline (pollStep b serviceID w)) = Inr server"
      by (subst (asm) waitLoop_step) simp
    with "1.IH" [OF live pair Inl] show ?thesis
      by (simp add: pollStep_def GetServerByServiceID_world)
  qed
qed

text \<open>
  Claim C3. A poll tick is an iteration of the loop, entered while the clock is before
  the deadline. If the context is done at a tick, the loop returns the context's error,
  not the timeout error, and issues no query (the world is unchanged). In every run,
  each call the loop issues is a server-list query issued at an instant when the context
  was not done and the clock was before the deadline: the signal is checked before every
  query. Hence once the context is done from \<open>t0\<close> on, no query is issued at or after
  \<open>t0\<close>. (Once the deadline has elapsed the loop is left before the context is looked
  at, and the timeout error is returned: see the lemma on the elapsed deadline.)
\<close>

theorem waitLoop_cancellation_checked_before_query:
  "(now w < deadline \<and> ctxErr b (now w) = Some e
      \<longrightarrow> waitLoop b serviceID deadline w = (Inl (ContextError e), w))
   \<and> (\<forall>(t, c) \<in> set (newCalls w (snd (waitLoop b serviceID deadline w))).
         c = CallGetServers \<and> ctxErr b t = None \<and> t < deadline)
   \<and> ((\<forall>t \<ge> t0. ctxErr b t \<noteq> None)
      \<longrightarrow> (\<forall>(t, c) \<in> set (newCalls w (snd (waitLoop b serviceID deadline w))). t < t0))"
proof -
  have abort: "waitLoop b serviceID deadline w = (Inl (ContextError e), w)"
    if "now w < deadline" "ctxErr b (now w) = Some e"
    using that by (subst waitLoop_step) simp
  from waitLoop_calls [of b serviceID deadline w]
  obtain qs where qs: "newCalls w (snd (waitLoop b serviceID deadline w)) = qs"
    and ok: "\<forall>(t, c) \<in> set qs. c = CallGetServers \<and> ctxErr b t = None \<and> t < deadline"
    by (auto simp: newCalls_def)
  have past: "\<forall>(t, c) \<in> set qs. t < t0" if "\<forall>t \<ge> t0. ctxErr b t \<noteq> None"
  proof -
    have "t < t0" if "(t, c) \<in> set qs" for t c
    proof (rule ccontr)
      assume "\<not> t < t0"
      with \<open>\<forall>t \<ge> t0. ctxErr b t \<noteq> None\<close> have "ctxErr b t \<noteq> None" by simp
      with ok that show False by auto
    qed
    then show ?thesis by auto
  qed
  from abort ok past show ?thesis unfolding qs by blast
qed

text \<open>A context cancelled at second 60: a tick at second 60 returns the cancellation
  error with no query, and a wait started at second 0 queries at seconds 0 and 30, when
  the context is not yet done, and is then aborted with the cancellation error.\<close>

theorem waitLoop_cancellation_checked_before_query_witness:
  "now (world0\<lparr>now := 60 * Second\<rparr>) < 30 * Minute
   \<and> ctxErr cancelledAt60 (now (world0\<lparr>now := 60 * Second\<rparr>)) = Some Canceled
   \<and> waitLoop cancelledAt60 500 (30 * Minute) (world0\<lparr>now := 60 * Second\<rparr>)
       = (Inl (ContextError Canceled), world0\<lparr>now := 60 * Second\<rparr>)
   \<and> fst (waitLoop cancelledAt60 500 (30 * Minute) world0) = Inl (ContextError Canceled)
   \<and> newCalls world0 (snd (waitLoop cancelledAt60 500 (30 * Minute) world0))
       = [(0, CallGetServers), (30 * Second, CallGetServers)]
   \<and> ctxErr cancelledAt60 0 = None \<and> ctxErr cancelledAt60 (30 * Second) = None"
proof -
  have live: "now (world0\<lparr>now := 60 * Second\<rparr>) < 30 * Minute"
    by (simp add: Minute_def Second_def)
  have cancelled: "ctxErr cancelledAt60 (now (world0\<lparr>now := 60 * Second\<rparr>)) = Some Canceled"
    by (simp add: cancelledAt60_def)
  note tick = waitLoop_cancellation_checked_before_query
         [of "world0\<lparr>now := 60 * Second\<rparr>" "30 * Minute" cancelledAt60 Canceled 500 0]
  have run: "waitLoop cancelledAt60 500 (30 * Minute) world0
     = (Inl (ContextError Canceled),
        \<lparr>now = 60 * Second, calls = [(0, CallGetServers), (30 * Second, CallGetServers)]\<rparr>)"
    by (simp add: waitLoop_step pollStep_def Sleep_def GetServerByServiceID_result
        GetServerByServiceID_world issue_def cancelledAt60_def idleBackend_def world0_def
        Minute_def Second_def)
  then have new: "newCalls world0 (snd (waitLoop cancelledAt60 500 (30 * Minute) world0))
       = [(0, CallGetServers), (30 * Second, CallGetServers)]"
    by (simp add: newCalls_def world0_def)
  note queries = waitLoop_cancellation_checked_before_query
         [of world0 "30 * Minute" cancelledAt60 Canceled 500 0, THEN conjunct2, THEN conjunct1,
          unfolded new]
  then have "ctxErr cancelledAt60 0 = None \<and> ctxErr cancelledAt60 (30 * Second) = None"
    by simp
  with tick live cancelled run new show ?thesis by simp
qed

lemma now_pollStep: "now w + 30 * Second \<le> now (pollStep b serviceID w)"
  by (simp add: pollStep_def Sleep_def GetServerByServiceID_world issue_def)

lemma now_funpow_pollStep: "now w \<le> now ((pollStep b serviceID ^^ k) w)"
proof (induction k)
  case 0
  show ?case by simp
next
  case (Suc k)
  have "now ((pollStep b serviceID ^^ k) w)
          \<le> now (pollStep b serviceID ((pollStep b serviceID ^^ k) w))"
    using now_pollStep [of "(pollStep b serviceID ^^ k) w" b serviceID]
    by (simp add: Second_def)
  with Suc show ?case by simp
qed

lemma waitLoop_skip_not_found:
  assumes "\<forall>k<N. ctxErr b (now ((pollStep b serviceID ^^ k) w)) = None
                 \<and> isl (fst (GetServerByServiceID b serviceID ((pollStep b serviceID ^^ k) w)))"
    and "now ((pollStep b serviceID ^^ N) w) < deadline"
  shows "waitLoop b serviceID deadline w
           = waitLoop b serviceID deadline ((pollStep b serviceID ^^ N) w)"
  using assms
proof (induction N arbitrary: w)
  case 0
  show ?case by simp
next
  case (Suc N)
  let ?w1 = "pollStep b serviceID w"
  have shift: "(pollStep b serviceID ^^ Suc k) w = (pollStep b serviceID ^^ k) ?w1" for k
    by (simp add: funpow_swap1)
  from Suc.prems(1) have first: "ctxErr b (now w) = None"
    "isl (fst (GetServerByServiceID b serviceID w))"
    by (auto dest: spec [of _ 0])
  have "now w \<le> now ((pollStep b serviceID ^^ Suc N) w)"
    by (rule now_funpow_pollStep)
  with Suc.prems(2) have before: "now w < deadline" by simp
  from first before have step: "waitLoop b serviceID deadline w = waitLoop b serviceID deadline ?w1"
    by (subst waitLoop_step) (auto simp: isl_def)
  have rest: "\<forall>k<N. ctxErr b (now ((pollStep b serviceID ^^ k) ?w1)) = None
                 \<and> isl (fst (GetServerByServiceID b serviceID ((pollStep b serviceID ^^ k) ?w1)))"
  proof (intro allI impI)
    fix k assume "k < N"
    then have "Suc k < Suc N" by simp
    with Suc.prems(1) show "ctxErr b (now ((pollStep b serviceID ^^ k) ?w1)) = None
                 \<and> isl (fst (GetServerByServiceID b serviceID ((pollStep b serviceID ^^ k) ?w1)))"
      unfolding shift [symmetric] by blast
  qed
  from Suc.prems(2) have "now ((pollStep b serviceID ^^ N) ?w1) < deadline"
    unfolding shift [symmetric] .
  from Suc.IH [OF rest this] step show ?case
    unfolding shift by simp
qed

lemma waitLoop_found:
  assumes "now w < deadline" "ctxErr b (now w) = None" "getServers b w = Inr servers"
    and "find (\<lambda>server. srv_ServiceID server = serviceID) servers = Some server"
  shows "waitLoop b serviceID deadline w = (Inr server, issue b CallGetServers w)"
  using assms by (subst waitLoop_step) (simp add: GetServerByServiceID_result)

text \<open>
  Claim C4. Take a run in which the first \<open>N\<close> polls fail (the server list has no
  entry with the service identifier, or the query itself fails) with the context not
  done, and the next poll, still before the deadline and with the context not done,
  gets a server list \<open>servers\<close> whose first entry with the service identifier is
  \<open>server\<close>. It returns \<open>server\<close>, the same value as a run whose very first poll
  gets the same list.
\<close>

theorem waitForServerProvisioning_repeated_not_found:
  assumes notFound:
      "\<forall>k<N. ctxErr b (now ((pollStep b serviceID ^^ k) w)) = None
             \<and> isl (fst (GetServerByServiceID b serviceID ((pollStep b serviceID ^^ k) w)))"
    and margin: "now ((pollStep b serviceID ^^ N) w) < now w + timeout"
    and live: "ctxErr b (now ((pollStep b serviceID ^^ N) w)) = None"
    and found: "getServers b ((pollStep b serviceID ^^ N) w) = Inr servers"
      "find (\<lambda>server. srv_ServiceID server = serviceID) servers = Some server"
    and immediate: "0 < timeout'" "ctxErr b' (now w') = None" "getServers b' w' = Inr servers"
  shows "fst (waitForServerProvisioning b serviceID timeout w) = Inr server
         \<and> fst (waitForServerProvisioning b' serviceID timeout' w') = Inr server"
proof -
  have "waitLoop b serviceID (now w + timeout) w
          = waitLoop b serviceID (now w + timeout) ((pollStep b serviceID ^^ N) w)"
    by (rule waitLoop_skip_not_found [OF notFound margin])
  also have "fst \<dots> = Inr server"
    by (simp add: waitLoop_found [OF margin live found])
  finally have late: "fst (waitForServerProvisioning b serviceID timeout w) = Inr server"
    by (simp add: waitForServerProvisioning_def)
  from immediate(1) have "now w' < now w' + timeout'" by simp
  from waitLoop_found [OF this immediate(2,3) found(2)]
  have "fst (waitForServerProvisioning b' serviceID timeout' w') = Inr server"
    by (simp add: waitForServerProvisioning_def)
  with late show ?thesis by simp
qed

lemma pollStep_lateBackend:
  "pollStep lateBackend 500 w = w\<lparr>now := now w + 30 * Second, calls := calls w @ [(now w, CallGetServers)]\<rparr>"
  by (simp add: pollStep_def Sleep_def GetServerByServiceID_world issue_def lateBackend_def
      idleBackend_def)

text \<open>The scenario of the specification: the server list has no entry with service
  identifier 500 for three polls, then one; the wait of 30 minutes returns that entry,
  as a wait does whose first poll already finds it.\<close>

theorem waitForServerProvisioning_repeated_not_found_witness:
  "fst (waitForServerProvisioning lateBackend 500 (30 * Minute) world0)
     = Inr (mkServer ''srv-2'' 500)
   \<and> fst (waitForServerProvisioning promptBackend 500 (30 * Minute) world0)
     = Inr (mkServer ''srv-2'' 500)"
proof -
  let ?servers = "[mkServer ''srv-1'' 499, mkServer ''srv-2'' 500]"
  have ticks: "now ((pollStep lateBackend 500 ^^ k) world0) = 30 * Second * int k" for k
    by (induction k) (simp_all add: pollStep_lateBackend world0_def algebra_simps)
  have ctx: "ctxErr lateBackend t = None" for t
    by (simp add: lateBackend_def idleBackend_def)
  have early: "isl (fst (GetServerByServiceID lateBackend 500 v))" if "now v < 90 * Second" for v
  proof -
    from that have "getServers lateBackend v = Inr [mkServer ''srv-1'' 499]"
      by (simp add: lateBackend_def idleBackend_def)
    then show ?thesis by (simp add: GetServerByServiceID_result mkServer_def)
  qed
  have notFound:
    "\<forall>k<3. ctxErr lateBackend (now ((pollStep lateBackend 500 ^^ k) world0)) = None
           \<and> isl (fst (GetServerByServiceID lateBackend 500
                          ((pollStep lateBackend 500 ^^ k) world0)))"
  proof (intro allI impI conjI)
    fix k :: nat assume "k < 3"
    then have "now ((pollStep lateBackend 500 ^^ k) world0) < 90 * Second"
      by (simp add: ticks Second_def)
    then show "isl (fst (GetServerByServiceID lateBackend 500
                          ((pollStep lateBackend 500 ^^ k) world0)))"
      by (rule early)
  qed (rule ctx)
  have start: "now world0 = 0" by (simp add: world0_def)
  have margin: "now ((pollStep lateBackend 500 ^^ 3) world0) < now world0 + 30 * Minute"
    by (simp add: ticks start Minute_def Second_def)
  have live: "ctxErr lateBackend (now ((pollStep lateBackend 500 ^^ 3) world0)) = None"
    by (rule ctx)
  have "\<not> now ((pollStep lateBackend 500 ^^ 3) world0) < 90 * Second"
    by (simp add: ticks Second_def)
  then have found:
    "getServers lateBackend ((pollStep lateBackend 500 ^^ 3) world0) = Inr ?servers"
    by (simp add: lateBackend_def idleBackend_def)
  have first: "find (\<lambda>server. srv_ServiceID server = 500) ?servers
                 = Some (mkServer ''srv-2'' 500)"
    by (simp add: mkServer_def)
  have immediate: "(0::int) < 30 * Minute" "ctxErr promptBackend (now world0) = None"
    "getServers promptBackend world0 = Inr ?servers"
    by (simp_all add: Minute_def Second_def promptBackend_def idleBackend_def)
  show ?thesis
    by (rule waitForServerProvisioning_repeated_not_found
          [OF notFound margin live found first immediate])
qed

section \<open>Server resource: the model update\<close>

lemma updateModelFromServer_fields:
  "updateModelFromServer data server =
     data\<lparr>m_ID := StringValue (srv_ID server),
          m_ServiceID := Int64Value (srv_ServiceID server),
          m_PublicIP := StringValue (srv_PublicIP server),
          m_RootPassword := StringValue (srv_RootPassword server),
          m_ServiceDescription := StringValue (srv_ServiceDescription server),
          m_PlanID := Int64Value (srv_PlanID server),
          m_DatacenterName := StringValue (srv_DatacenterName server),
          m_DatacenterID := Int64Value (srv_DatacenterID server),
          m_LocationID := Int64Value (srv_LocationID server),
          m_ServerTypeInternal := StringValue (srv_ServerType server),
          m_Hostname := (if IsNull (m_Hostname data) \<and> srv_Hostname server \<noteq> []
                         then StringValue (srv_Hostname server) else m_Hostname data),
          m_FriendlyName := (if IsNull (m_FriendlyName data) \<and> srv_FriendlyName server \<noteq> []
                             then StringValue (srv_FriendlyName server)
                             else m_FriendlyName data)\<rparr>"
  by (simp add: updateModelFromServer_def Let_def)

lemma Create_order_State:
  "State (fst (Create_order b data ds orderReq w)) = Some m
     \<Longrightarrow> \<exists>server. m = updateModelFromServer data server"
  by (auto simp: Create_order_def failed_def
      split: prod.splits sum.splits list.splits option.splits if_splits)

lemma Create_sshKeys_State:
  "State (fst (Create_sshKeys b data orderReq w)) = Some m
     \<Longrightarrow> \<exists>server. m = updateModelFromServer data server"
  by (auto simp: Create_sshKeys_def failed_def dest: Create_order_State
      split: prod.splits sum.splits if_splits)

lemma Create_State:
  "State (fst (Create b data w)) = Some m \<Longrightarrow> \<exists>server. m = updateModelFromServer data server"
  by (auto simp: Create_def Let_def failed_def dest: Create_sshKeys_State
      split: prod.splits sum.splits option.splits)

lemma Read_State:
  "State (fst (Read b data w)) = Some m \<Longrightarrow> \<exists>server. m = updateModelFromServer data server"
  by (auto simp: Read_def Let_def failed_def split: prod.splits sum.splits)

text \<open>
  Claim C10. Updating the model from a fetched server record, and so every state that
  Create or Read saves, leaves \<open>instance_type\<close>, \<open>location\<close>, \<open>operating_system\<close> and
  \<open>ssh_key_labels\<close> as they were, and changes \<open>hostname\<close> or \<open>friendly_name\<close> only if
  it was null. The updated model is the old one with exactly the ten computed fields
  overwritten from the record, and with \<open>hostname\<close> and \<open>friendly_name\<close> written when
  they were null and the fetched value is not empty.
\<close>

theorem updateModelFromServer_frame:
  "(\<forall>m. m = updateModelFromServer data server
          \<or> State (fst (Create b data w)) = Some m \<or> State (fst (Read b data w)) = Some m
      \<longrightarrow> m_InstanceType m = m_InstanceType data
          \<and> m_Location m = m_Location data
          \<and> m_OperatingSystem m = m_OperatingSystem data
          \<and> m_SSHKeyLabels m = m_SSHKeyLabels data
          \<and> (m_Hostname m \<noteq> m_Hostname data \<longrightarrow> IsNull (m_Hostname data))
          \<and> (m_FriendlyName m \<noteq> m_FriendlyName data \<longrightarrow> IsNull (m_FriendlyName data)))
   \<and> updateModelFromServer data server =
       data\<lparr>m_ID := StringValue (srv_ID server),
            m_ServiceID := Int64Value (srv_ServiceID server),
            m_PublicIP := StringValue (srv_PublicIP server),
            m_RootPassword := StringValue (srv_RootPassword server),
            m_ServiceDescription := StringValue (srv_ServiceDescription server),
            m_PlanID := Int64Value (srv_PlanID server),
            m_DatacenterName := StringValue (srv_DatacenterName server),
            m_DatacenterID := Int64Value (srv_DatacenterID server),
            m_LocationID := Int64Value (srv_LocationID server),
            m_ServerTypeInternal := StringValue (srv_ServerType server),
            m_Hostname := (if IsNull (m_Hostname data) \<and> srv_Hostname server \<noteq> []
                           then StringValue (srv_Hostname server) else m_Hostname data),
            m_FriendlyName := (if IsNull (m_FriendlyName data) \<and> srv_FriendlyName server \<noteq> []
                               then StringValue (srv_FriendlyName server)
                               else m_FriendlyName data)\<rparr>"
proof -
  have frame: "m_InstanceType m = m_InstanceType data
          \<and> m_Location m = m_Location data
          \<and> m_OperatingSystem m = m_OperatingSystem data
          \<and> m_SSHKeyLabels m = m_SSHKeyLabels data
          \<and> (m_Hostname m \<noteq> m_Hostname data \<longrightarrow> IsNull (m_Hostname data))
          \<and> (m_FriendlyName m \<noteq> m_FriendlyName data \<longrightarrow> IsNull (m_FriendlyName data))"
    if "m = updateModelFromServer data found" for m found
    unfolding that by (simp add: updateModelFromServer_fields)
  have "\<exists>found. m = updateModelFromServer data found"
    if "m = updateModelFromServer data server
          \<or> State (fst (Create b data w)) = Some m \<or> State (fst (Read b data w)) = Some m" for m
    using that Create_State Read_State by blast
  with frame show ?thesis
    by (simp only: updateModelFromServer_fields [symmetric]) blast
qed

theorem updateModelFromServer_frame_witness:
  "m_InstanceType (updateModelFromServer plan0 (mkServer ''srv-2'' 500)) = StringValue ''c1.small''
   \<and> m_Location (updateModelFromServer plan0 (mkServer ''srv-2'' 500)) = StringValue ''ORD1''
   \<and> m_SSHKeyLabels (updateModelFromServer plan0 (mkServer ''srv-2'' 500))
       = ListValue [StringValue ''deploy'']
   \<and> m_Hostname (updateModelFromServer plan0 (mkServer ''srv-2'' 500))
       = StringValue ''host-srv-2''
   \<and> m_FriendlyName (updateModelFromServer plan0 (mkServer ''srv-2'' 500)) = StringValue ''web''
   \<and> m_ServiceID (updateModelFromServer plan0 (mkServer ''srv-2'' 500)) = Int64Value 500"
  using updateModelFromServer_frame [of plan0 "mkServer ''srv-2'' 500" idleBackend world0]
  by (simp add: plan0_def mkServer_def)

section \<open>Server resource: the alternatives of a failed resolution\<close>

lemma scanAlternatives_eq:
  "scanAlternatives instanceType location inventory availableTypes availableLocations
       typeLocationMap =
     (availableTypes @ map item_SkuProductName
        (filter (\<lambda>e. item_AutoProvisionQuantity e > 0 \<and> item_LocationCode e = location)
           inventory),
      availableLocations @ map item_LocationCode
        (filter (\<lambda>e. item_AutoProvisionQuantity e > 0 \<and> item_SkuProductName e = instanceType)
           inventory),
      (\<lambda>t. case map item_LocationCode
                 (filter (\<lambda>e. item_AutoProvisionQuantity e > 0 \<and> item_SkuProductName e = t)
                    inventory) of
              [] \<Rightarrow> typeLocationMap t
            | l # ls \<Rightarrow> Some ((case typeLocationMap t of None \<Rightarrow> [] | Some locs \<Rightarrow> locs)
                              @ l # ls)))"
proof (induction inventory arbitrary: availableTypes availableLocations typeLocationMap)
  case Nil
  show ?case by simp
next
  case (Cons item rest)
  show ?case
    by (simp add: Cons.IH fun_eq_iff split: list.splits option.splits)
qed

lemma in_filter_available:
  "l \<in> set (map item_LocationCode
       (filter (\<lambda>e. item_AutoProvisionQuantity e > 0 \<and> item_SkuProductName e = t) inventory))
     \<longleftrightarrow> available inventory t l"
  by (auto simp: available_def)

lemma in_filter_available_types:
  "t \<in> set (map item_SkuProductName
       (filter (\<lambda>e. item_AutoProvisionQuantity e > 0 \<and> item_LocationCode e = l) inventory))
     \<longleftrightarrow> available inventory t l"
  by (auto simp: available_def)

lemma scanAlternatives_listed:
  assumes "scanAlternatives instanceType location inventory [] [] Map.empty
             = (availableTypes, availableLocations, typeLocationMap)"
  shows "t \<in> set availableTypes \<longleftrightarrow> available inventory t location"
    and "l \<in> set availableLocations \<longleftrightarrow> available inventory instanceType l"
    and "(\<exists>locs. typeLocationMap t = Some locs \<and> l \<in> set locs) \<longleftrightarrow> available inventory t l"
proof -
  note eq = assms [unfolded scanAlternatives_eq]
  from eq have ts: "availableTypes = map item_SkuProductName
        (filter (\<lambda>e. item_AutoProvisionQuantity e > 0 \<and> item_LocationCode e = location)
           inventory)"
    and ls: "availableLocations = map item_LocationCode
        (filter (\<lambda>e. item_AutoProvisionQuantity e > 0 \<and> item_SkuProductName e = instanceType)
           inventory)"
    by simp_all
  from eq have "typeLocationMap = (\<lambda>t. case map item_LocationCode
                 (filter (\<lambda>e. item_AutoProvisionQuantity e > 0 \<and> item_SkuProductName e = t)
                    inventory) of
              [] \<Rightarrow> Map.empty t
            | l # ls \<Rightarrow> Some ((case Map.empty t of None \<Rightarrow> [] | Some locs \<Rightarrow> locs)
                              @ l # ls))"
    by simp
  then have m: "typeLocationMap u = (case map item_LocationCode
                 (filter (\<lambda>e. item_AutoProvisionQuantity e > 0 \<and> item_SkuProductName e = u)
                    inventory) of
              [] \<Rightarrow> None | l # ls \<Rightarrow> Some (l # ls))" for u
    by (simp split: list.splits)
  show "t \<in> set availableTypes \<longleftrightarrow> available inventory t location"
    unfolding ts by (rule in_filter_available_types)
  show "l \<in> set availableLocations \<longleftrightarrow> available inventory instanceType l"
    unfolding ls by (rule in_filter_available)
  show "(\<exists>locs. typeLocationMap t = Some locs \<and> l \<in> set locs) \<longleftrightarrow> available inventory t l"
  proof (cases "map item_LocationCode
                 (filter (\<lambda>e. item_AutoProvisionQuantity e > 0 \<and> item_SkuProductName e = t)
                    inventory)")
    case Nil
    with in_filter_available [of l t inventory] show ?thesis by (simp add: m)
  next
    case (Cons x xs)
    with in_filter_available [of l t inventory] show ?thesis by (simp add: m)
  qed
qed

lemma Create_resolution_failed:
  assumes "fst (FindSKUByProductName b (ValueString (m_InstanceType data))
                  (ValueString (m_Location data)) w) = Inl err"
    and "getInventory b (issue b CallGetInventory w) = Inr inventory"
    and "scanAlternatives (ValueString (m_InstanceType data)) (ValueString (m_Location data))
           inventory [] [] Map.empty = (availableTypes, availableLocations, typeLocationMap)"
  shows "fst (Create b data w) =
           failed [DiagError ''Invalid Instance Type and Location Combination''
                     (NotAvailable (ValueString (m_InstanceType data))
                        (ValueString (m_Location data))
                        availableTypes availableLocations typeLocationMap)]"
proof -
  have w1: "snd (FindSKUByProductName b p l w) = issue b CallGetInventory w" for p l
    by (simp add: FindSKUByProductName_def GetInventory_def split: sum.splits option.splits)
  obtain r v where rv: "FindSKUByProductName b (ValueString (m_InstanceType data))
                  (ValueString (m_Location data)) w = (r, v)"
    by (cases "FindSKUByProductName b (ValueString (m_InstanceType data))
                  (ValueString (m_Location data)) w")
  with assms(1) w1 [of "ValueString (m_InstanceType data)" "ValueString (m_Location data)"]
  have "r = Inl err" "v = issue b CallGetInventory w" by simp_all
  with rv assms(2,3) show ?thesis
    by (simp add: Create_def Let_def GetInventory_def)
qed

text \<open>
  Claim C6. When resolution fails in Create and the inventory is fetched again for the
  suggestions, Create fails with the lists built from that snapshot, and the lists
  contain only pairs that appear in the snapshot with a positive auto-provisionable
  quantity: every listed type is available at the requested location, every listed
  location is available for the requested type, and every location under a type of the
  map is available for that type. The lists are also complete: every such pair of the
  snapshot is listed.
\<close>

theorem Create_alternatives_consistent:
  assumes fails: "fst (FindSKUByProductName b (ValueString (m_InstanceType data))
                         (ValueString (m_Location data)) w) = Inl err"
    and snapshot: "getInventory b (issue b CallGetInventory w) = Inr inventory"
  shows "\<exists>availableTypes availableLocations typeLocationMap.
           fst (Create b data w) =
             failed [DiagError ''Invalid Instance Type and Location Combination''
                       (NotAvailable (ValueString (m_InstanceType data))
                          (ValueString (m_Location data))
                          availableTypes availableLocations typeLocationMap)]
           \<and> (\<forall>t \<in> set availableTypes. available inventory t (ValueString (m_Location data)))
           \<and> (\<forall>l \<in> set availableLocations.
                 available inventory (ValueString (m_InstanceType data)) l)
           \<and> (\<forall>t locs. typeLocationMap t = Some locs
                 \<longrightarrow> (\<forall>l \<in> set locs. available inventory t l))
           \<and> (\<forall>t. available inventory t (ValueString (m_Location data))
                 \<longrightarrow> t \<in> set availableTypes)
           \<and> (\<forall>l. available inventory (ValueString (m_InstanceType data)) l
                 \<longrightarrow> l \<in> set availableLocations)
           \<and> (\<forall>t l. available inventory t l
                 \<longrightarrow> (\<exists>locs. typeLocationMap t = Some locs \<and> l \<in> set locs))"
proof -
  obtain availableTypes availableLocations typeLocationMap
    where scan: "scanAlternatives (ValueString (m_InstanceType data))
                   (ValueString (m_Location data)) inventory [] [] Map.empty
                 = (availableTypes, availableLocations, typeLocationMap)"
    by (rule prod_cases3)
  note listed = scanAlternatives_listed [OF scan]
  have "fst (Create b data w) =
             failed [DiagError ''Invalid Instance Type and Location Combination''
                       (NotAvailable (ValueString (m_InstanceType data))
                          (ValueString (m_Location data))
                          availableTypes availableLocations typeLocationMap)]"
    by (rule Create_resolution_failed [OF fails snapshot scan])
  moreover have "\<forall>t \<in> set availableTypes. available inventory t (ValueString (m_Location data))"
    using listed(1) by blast
  moreover have "\<forall>l \<in> set availableLocations.
                 available inventory (ValueString (m_InstanceType data)) l"
    using listed(2) by blast
  moreover have "\<forall>t locs. typeLocationMap t = Some locs
                 \<longrightarrow> (\<forall>l \<in> set locs. available inventory t l)"
    using listed(3) by blast
  moreover have "\<forall>t. available inventory t (ValueString (m_Location data))
                 \<longrightarrow> t \<in> set availableTypes"
    using listed(1) by blast
  moreover have "\<forall>l. available inventory (ValueString (m_InstanceType data)) l
                 \<longrightarrow> l \<in> set availableLocations"
    using listed(2) by blast
  moreover have "\<forall>t l. available inventory t l
                 \<longrightarrow> (\<exists>locs. typeLocationMap t = Some locs \<and> l \<in> set locs)"
    using listed(3) by blast
  ultimately show ?thesis by blast
qed

text \<open>The scenario of the specification: with \<open>c1.small\<close> at \<open>NYC1\<close> (quantity 3)
  and at \<open>ORD1\<close> (quantity 0), resolving (\<open>c1.small\<close>, \<open>ORD1\<close>) fails and
  \<open>NYC1\<close> is listed as an available location for \<open>c1.small\<close>.\<close>

theorem Create_alternatives_consistent_witness:
  "fst (FindSKUByProductName (inventoryBackend exampleInventory) ''c1.small'' ''ORD1'' world0)
     = Inl (SkuNotFoundInLocation ''c1.small'' ''ORD1'')
   \<and> fst (Create (inventoryBackend exampleInventory) plan0 world0)
     = failed [DiagError ''Invalid Instance Type and Location Combination''
                 (NotAvailable ''c1.small'' ''ORD1'' [] [''NYC1'']
                    [''c1.small'' \<mapsto> [''NYC1'']])]"
proof -
  let ?b = "inventoryBackend exampleInventory"
  have plan: "ValueString (m_InstanceType plan0) = ''c1.small''"
    "ValueString (m_Location plan0) = ''ORD1''"
    by (simp_all add: plan0_def)
  have fails: "fst (FindSKUByProductName ?b (ValueString (m_InstanceType plan0))
                      (ValueString (m_Location plan0)) world0)
                 = Inl (SkuNotFoundInLocation ''c1.small'' ''ORD1'')"
    unfolding plan
    by (simp add: FindSKUByProductName_cases inventoryBackend_def exampleInventory_def
        qualifies_def mkItem_def)
  have snapshot: "getInventory ?b (issue ?b CallGetInventory world0) = Inr exampleInventory"
    by (simp add: inventoryBackend_def)
  from Create_alternatives_consistent [OF fails snapshot]
  obtain ts ls m where res: "fst (Create ?b plan0 world0) =
             failed [DiagError ''Invalid Instance Type and Location Combination''
                       (NotAvailable ''c1.small'' ''ORD1'' ts ls m)]"
    and sound: "\<forall>t \<in> set ts. available exampleInventory t ''ORD1''"
    and complete: "\<forall>l. available exampleInventory ''c1.small'' l \<longrightarrow> l \<in> set ls"
    unfolding plan by blast
  have "available exampleInventory ''c1.small'' ''NYC1''"
    by (simp add: available_def exampleInventory_def mkItem_def)
  with complete have listed: "''NYC1'' \<in> set ls" by blast
  have scan: "scanAlternatives ''c1.small'' ''ORD1'' exampleInventory [] [] Map.empty
                = ([], [''NYC1''], [''c1.small'' \<mapsto> [''NYC1'']])"
    by (simp add: exampleInventory_def mkItem_def)
  have "fst (Create ?b plan0 world0) =
          failed [DiagError ''Invalid Instance Type and Location Combination''
                    (NotAvailable ''c1.small'' ''ORD1'' [] [''NYC1'']
                       [''c1.small'' \<mapsto> [''NYC1'']])]"
    using Create_resolution_failed [OF fails snapshot, unfolded plan, OF scan]
    by (simp add: plan)
  with fails listed show ?thesis unfolding plan by simp
qed

section \<open>Server resource: SSH key labels and the order\<close>

lemma newCalls_append: "calls w' = calls w @ xs \<Longrightarrow> newCalls w w' = xs"
  by (simp add: newCalls_def)

lemma GetSSHKeyByLabel_world:
  "snd (GetSSHKeyByLabel b label w) = issue b CallGetSSHKeys w"
  by (simp add: GetSSHKeyByLabel_def GetSSHKeys_def split: sum.splits option.splits)

lemma GetSSHKeyByLabel_result:
  "fst (GetSSHKeyByLabel b label w) =
     (case getSSHKeys b w of
        Inl err \<Rightarrow> Inl (FailedToGetSSHKeys err)
      | Inr sshKeys \<Rightarrow>
          (case find (\<lambda>key. key_Label key = label) sshKeys of
             Some key \<Rightarrow> Inr key
           | None \<Rightarrow> Inl (SSHKeyNotFound label)))"
  by (simp add: GetSSHKeyByLabel_def GetSSHKeys_def split: sum.splits option.splits)

lemma GetSSHKeyByLabel_found:
  "fst (GetSSHKeyByLabel b label w) = Inr key
     \<longleftrightarrow> (\<exists>keys. getSSHKeys b w = Inr keys \<and> find (\<lambda>k. key_Label k = label) keys = Some key)"
  by (auto simp: GetSSHKeyByLabel_result split: sum.splits option.splits)

lemma lookupWorld_0 [simp]: "lookupWorld b w 0 = w"
  by (simp add: lookupWorld_def)

lemma lookupWorld_Suc: "lookupWorld b w (Suc i) = lookupWorld b (issue b CallGetSSHKeys w) i"
  by (simp add: lookupWorld_def funpow_swap1)

lemma calls_lookupWorld:
  "\<exists>ks. calls (lookupWorld b w n) = calls w @ ks \<and> (\<forall>(t, c) \<in> set ks. c = CallGetSSHKeys)"
proof (induction n arbitrary: w)
  case 0
  show ?case by simp
next
  case (Suc n)
  from Suc [of "issue b CallGetSSHKeys w"]
  obtain ks where "calls (lookupWorld b w (Suc n)) = calls w @ (now w, CallGetSSHKeys) # ks"
    and "\<forall>(t, c) \<in> set ks. c = CallGetSSHKeys"
    by (auto simp: lookupWorld_Suc calls_issue)
  then show ?case by (intro exI [of _ "(now w, CallGetSSHKeys) # ks"]) simp
qed

lemma resolveSSHKeyLabels_world:
  "\<exists>n \<le> length labels. snd (resolveSSHKeyLabels b labels sshKeyIDs w) = lookupWorld b w n"
proof (induction labels arbitrary: sshKeyIDs w)
  case Nil
  show ?case by simp
next
  case (Cons label rest)
  obtain r where r: "GetSSHKeyByLabel b label w = (r, issue b CallGetSSHKeys w)"
    using GetSSHKeyByLabel_world [of b label w]
    by (cases "GetSSHKeyByLabel b label w") simp
  show ?case
  proof (cases r)
    case (Inl err)
    with r have "snd (resolveSSHKeyLabels b (label # rest) sshKeyIDs w) = lookupWorld b w (Suc 0)"
      by (simp add: lookupWorld_Suc)
    then show ?thesis by (intro exI [of _ "Suc 0"]) simp
  next
    case (Inr sshKey)
    from Cons [of "sshKeyIDs @ [key_ID sshKey]" "issue b CallGetSSHKeys w"]
    obtain n where "n \<le> length rest"
      and "snd (resolveSSHKeyLabels b rest (sshKeyIDs @ [key_ID sshKey])
                  (issue b CallGetSSHKeys w)) = lookupWorld b w (Suc n)"
      by (auto simp: lookupWorld_Suc)
    with r Inr show ?thesis by (intro exI [of _ "Suc n"]) simp
  qed
qed

lemma resolveSSHKeyLabels_Inr:
  "fst (resolveSSHKeyLabels b labels sshKeyIDs w) = Inr resolved \<Longrightarrow>
     \<exists>found. resolved = sshKeyIDs @ found \<and> length found = length labels
       \<and> (\<forall>i < length labels. \<exists>keys key.
             getSSHKeys b (lookupWorld b w i) = Inr keys
             \<and> find (\<lambda>k. key_Label k = labels ! i) keys = Some key
             \<and> found ! i = key_ID key)"
proof (induction labels arbitrary: sshKeyIDs w)
  case Nil
  then show ?case by simp
next
  case (Cons label rest)
  obtain r where r: "GetSSHKeyByLabel b label w = (r, issue b CallGetSSHKeys w)"
    using GetSSHKeyByLabel_world [of b label w]
    by (cases "GetSSHKeyByLabel b label w") simp
  from Cons.prems r obtain sshKey where key: "r = Inr sshKey"
    by (cases r) simp_all
  with r have "fst (GetSSHKeyByLabel b label w) = Inr sshKey" by simp
  then obtain keys where keys: "getSSHKeys b w = Inr keys"
    "find (\<lambda>k. key_Label k = label) keys = Some sshKey"
    unfolding GetSSHKeyByLabel_found by blast
  from Cons.prems r key
  have "fst (resolveSSHKeyLabels b rest (sshKeyIDs @ [key_ID sshKey])
               (issue b CallGetSSHKeys w)) = Inr resolved"
    by simp
  from Cons.IH [OF this]
  obtain found where found: "resolved = (sshKeyIDs @ [key_ID sshKey]) @ found"
    "length found = length rest"
    and each: "\<forall>i < length rest. \<exists>keys key.
             getSSHKeys b (lookupWorld b (issue b CallGetSSHKeys w) i) = Inr keys
             \<and> find (\<lambda>k. key_Label k = rest ! i) keys = Some key
             \<and> found ! i = key_ID key"
    by blast
  have "\<exists>keys key. getSSHKeys b (lookupWorld b w i) = Inr keys
             \<and> find (\<lambda>k. key_Label k = (label # rest) ! i) keys = Some key
             \<and> (key_ID sshKey # found) ! i = key_ID key"
    if "i < length (label # rest)" for i
  proof (cases i)
    case 0
    with keys show ?thesis by simp
  next
    case (Suc j)
    with that each show ?thesis by (simp add: lookupWorld_Suc)
  qed
  with found show ?case
    by (intro exI [of _ "key_ID sshKey # found"]) simp
qed

lemma resolveSSHKeyLabels_unresolved:
  assumes "i < length labels"
    and "isl (fst (GetSSHKeyByLabel b (labels ! i) (lookupWorld b w i)))"
  shows "\<exists>label err. fst (resolveSSHKeyLabels b labels sshKeyIDs w) = Inl (label, err)"
proof (cases "fst (resolveSSHKeyLabels b labels sshKeyIDs w)")
  case (Inl a)
  then show ?thesis by (cases a) simp
next
  case (Inr resolved)
  from resolveSSHKeyLabels_Inr [OF Inr] assms(1)
  obtain keys key where "getSSHKeys b (lookupWorld b w i) = Inr keys"
    "find (\<lambda>k. key_Label k = labels ! i) keys = Some key"
    by blast
  then have "fst (GetSSHKeyByLabel b (labels ! i) (lookupWorld b w i)) = Inr key"
    unfolding GetSSHKeyByLabel_found by blast
  with assms(2) show ?thesis by simp
qed

lemma waitForServerProvisioning_calls:
  "\<exists>qs. calls (snd (waitForServerProvisioning b serviceID timeout w)) = calls w @ qs
        \<and> (\<forall>(t, c) \<in> set qs. \<not> isOrder c)"
proof -
  from waitLoop_calls [of b serviceID "now w + timeout" w]
  obtain qs where "calls (snd (waitForServerProvisioning b serviceID timeout w)) = calls w @ qs"
    and "\<forall>(t, c) \<in> set qs. c = CallGetServers"
    unfolding waitForServerProvisioning_def by fastforce
  then show ?thesis by (intro exI [of _ qs]) auto
qed

lemma Create_order_calls:
  "\<exists>rest. calls (snd (Create_order b data ds orderReq w))
             = calls w @ (now w, CallOrderServer orderReq) # rest
          \<and> (\<forall>(t, c) \<in> set rest. \<not> isOrder c)"
proof -
  let ?w1 = "issue b (CallOrderServer orderReq) w"
  have c1: "calls ?w1 = calls w @ [(now w, CallOrderServer orderReq)]"
    by (simp add: calls_issue)
  show ?thesis
  proof (cases "orderServer b orderReq w")
    case (Inl err)
    then have "snd (Create_order b data ds orderReq w) = ?w1"
      by (simp add: Create_order_def OrderServer_def)
    with c1 show ?thesis by simp
  next
    case (Inr orderResp)
    show ?thesis
    proof (cases "ord_OrderServiceIDs orderResp")
      case Nil
      with Inr have "snd (Create_order b data ds orderReq w) = ?w1"
        by (simp add: Create_order_def OrderServer_def)
      with c1 show ?thesis by simp
    next
      case (Cons serviceID others)
      obtain r2 w2 where wait: "waitForServerProvisioning b serviceID (30 * Minute) ?w1 = (r2, w2)"
        by (cases "waitForServerProvisioning b serviceID (30 * Minute) ?w1")
      from waitForServerProvisioning_calls [of b serviceID "30 * Minute" ?w1] wait
      obtain qs where qs: "calls w2 = calls ?w1 @ qs" "\<forall>(t, c) \<in> set qs. \<not> isOrder c"
        by auto
      show ?thesis
      proof (cases r2)
        case (Inl err)
        with Inr Cons wait have "snd (Create_order b data ds orderReq w) = w2"
          by (simp add: Create_order_def OrderServer_def)
        with qs c1 show ?thesis by simp
      next
        case server: (Inr server)
        show ?thesis
        proof (cases "IsNull (m_FriendlyName data)")
          case True
          with Inr Cons wait server have "snd (Create_order b data ds orderReq w) = w2"
            by (simp add: Create_order_def OrderServer_def)
          with qs c1 show ?thesis by simp
        next
          case False
          let ?c = "CallUpdateServerFriendlyName (srv_ID server) (ValueString (m_FriendlyName data))"
          from False Inr Cons wait server
          have "snd (Create_order b data ds orderReq w) = issue b ?c w2"
            by (simp add: Create_order_def OrderServer_def UpdateServerFriendlyName_def
                split: option.splits)
          then have "calls (snd (Create_order b data ds orderReq w))
                       = calls w @ (now w, CallOrderServer orderReq) # (qs @ [(now w2, ?c)])"
            using qs c1 by (simp add: calls_issue)
          moreover from qs(2) have "\<forall>(t, c) \<in> set (qs @ [(now w2, ?c)]). \<not> isOrder c"
            by auto
          ultimately show ?thesis by blast
        qed
      qed
    qed
  qed
qed

lemma ElementsAs_known: "ElementsAs (ListValue (map StringValue labels)) = ([], labels)"
  by (simp add: list_all_iff comp_def)

lemma Create_sshKeys_labels:
  assumes "m_SSHKeyLabels data = ListValue (map StringValue labels)"
  shows "Create_sshKeys b data orderReq w =
     (case resolveSSHKeyLabels b labels [] w of
        (Inl (label, err), w1) \<Rightarrow>
          (failed [DiagError ''SSH Key Not Found'' (SSHKeyLabelNotFound label err)], w1)
      | (Inr sshKeyIDs, w1) \<Rightarrow>
          Create_order b data []
            (if length sshKeyIDs > 0 then orderReq\<lparr>req_SSHKeyIDs := sshKeyIDs\<rparr> else orderReq) w1)"
  by (simp add: Create_sshKeys_def assms ElementsAs_known HasError_def del: ElementsAs.simps
      split: prod.splits sum.splits)

lemma resolveSSHKeyLabels_calls:
  "\<exists>ks. calls (snd (resolveSSHKeyLabels b labels sshKeyIDs w)) = calls w @ ks
        \<and> (\<forall>(t, c) \<in> set ks. c = CallGetSSHKeys)"
  using resolveSSHKeyLabels_world [of labels b sshKeyIDs w] calls_lookupWorld [of b w]
  by metis

lemma Create_sshKeys_unresolved:
  assumes "m_SSHKeyLabels data = ListValue (map StringValue labels)"
    and "fst (resolveSSHKeyLabels b labels [] w) = Inl (label, err)"
  shows "fst (Create_sshKeys b data orderReq w)
           = failed [DiagError ''SSH Key Not Found'' (SSHKeyLabelNotFound label err)]"
    and "\<exists>ks. calls (snd (Create_sshKeys b data orderReq w)) = calls w @ ks
           \<and> (\<forall>(t, c) \<in> set ks. \<not> isOrder c)"
proof -
  obtain w1 where r: "resolveSSHKeyLabels b labels [] w = (Inl (label, err), w1)"
    using assms(2) by (cases "resolveSSHKeyLabels b labels [] w") simp
  then have res: "Create_sshKeys b data orderReq w
                    = (failed [DiagError ''SSH Key Not Found'' (SSHKeyLabelNotFound label err)], w1)"
    by (simp add: Create_sshKeys_labels [OF assms(1)])
  then show "fst (Create_sshKeys b data orderReq w)
           = failed [DiagError ''SSH Key Not Found'' (SSHKeyLabelNotFound label err)]"
    by simp
  from resolveSSHKeyLabels_calls [of b labels "[]" w] r
  obtain ks where "calls w1 = calls w @ ks" "\<forall>(t, c) \<in> set ks. c = CallGetSSHKeys"
    by auto
  with res show "\<exists>ks. calls (snd (Create_sshKeys b data orderReq w)) = calls w @ ks
           \<and> (\<forall>(t, c) \<in> set ks. \<not> isOrder c)"
    by (intro exI [of _ ks]) auto
qed

lemma Create_sshKeys_resolved:
  assumes "m_SSHKeyLabels data = ListValue (map StringValue labels)"
    and "fst (resolveSSHKeyLabels b labels [] w) = Inr sshKeyIDs"
    and "req_SSHKeyIDs orderReq = []"
  shows "\<exists>ks t request rest.
           calls (snd (Create_sshKeys b data orderReq w))
             = calls w @ ks @ (t, CallOrderServer request) # rest
           \<and> req_SSHKeyIDs request = sshKeyIDs
           \<and> (\<forall>(t, c) \<in> set ks. \<not> isOrder c) \<and> (\<forall>(t, c) \<in> set rest. \<not> isOrder c)"
proof -
  let ?request = "if length sshKeyIDs > 0 then orderReq\<lparr>req_SSHKeyIDs := sshKeyIDs\<rparr> else orderReq"
  obtain w1 where r: "resolveSSHKeyLabels b labels [] w = (Inr sshKeyIDs, w1)"
    using assms(2) by (cases "resolveSSHKeyLabels b labels [] w") simp
  then have res: "Create_sshKeys b data orderReq w = Create_order b data [] ?request w1"
    by (simp add: Create_sshKeys_labels [OF assms(1)])
  from resolveSSHKeyLabels_calls [of b labels "[]" w] r
  obtain ks where ks: "calls w1 = calls w @ ks" "\<forall>(t, c) \<in> set ks. c = CallGetSSHKeys"
    by auto
  from Create_order_calls [of b data "[]" ?request w1]
  obtain rest where rest: "calls (snd (Create_order b data [] ?request w1))
                             = calls w1 @ (now w1, CallOrderServer ?request) # rest"
    "\<forall>(t, c) \<in> set rest. \<not> isOrder c"
    by blast
  have "req_SSHKeyIDs ?request = sshKeyIDs"
    using assms(3) by simp
  moreover from ks(2) have "\<forall>(t, c) \<in> set ks. \<not> isOrder c" by auto
  moreover from res rest(1) ks(1)
  have "calls (snd (Create_sshKeys b data orderReq w))
          = calls w @ ks @ (now w1, CallOrderServer ?request) # rest"
    by simp
  ultimately show ?thesis using rest(2) by blast
qed

lemma FindSKUByProductName_world:
  "snd (FindSKUByProductName b productName locationCode w) = issue b CallGetInventory w"
  by (simp add: FindSKUByProductName_def GetInventory_def split: sum.splits option.splits)

lemma calls_validated:
  "\<exists>vs. calls (validated b data w) = calls w @ vs \<and> (\<forall>(t, c) \<in> set vs. \<not> isOrder c)"
  by (simp add: validated_def calls_issue)

lemma Create_validation_failed:
  assumes "Create b data w = (failed [DiagError summary d], w')"
    and "calls w' = calls w @ vs" and "\<forall>(t, c) \<in> set vs. \<not> isOrder c"
  shows "\<exists>ds vs. fst (Create b data w) = failed ds \<and> HasError ds
       \<and> calls (snd (Create b data w)) = calls w @ vs \<and> (\<forall>(t, c) \<in> set vs. \<not> isOrder c)"
proof -
  have "HasError [DiagError summary d]" by (simp add: HasError_def)
  with assms show ?thesis
    by (intro exI [of _ "[DiagError summary d]"] exI [of _ vs]) simp
qed

lemma Create_validation:
  "(\<exists>ds vs. fst (Create b data w) = failed ds \<and> HasError ds
       \<and> calls (snd (Create b data w)) = calls w @ vs \<and> (\<forall>(t, c) \<in> set vs. \<not> isOrder c))
   \<or> (\<exists>orderReq. req_SSHKeyIDs orderReq = []
         \<and> Create b data w = Create_sshKeys b data orderReq (validated b data w))"
proof -
  let ?it = "ValueString (m_InstanceType data)" and ?loc = "ValueString (m_Location data)"
  let ?w1 = "issue b CallGetInventory w"
  obtain r1 where r1: "FindSKUByProductName b ?it ?loc w = (r1, ?w1)"
    using FindSKUByProductName_world [of b ?it ?loc w]
    by (cases "FindSKUByProductName b ?it ?loc w") simp
  show ?thesis
  proof (cases r1)
    case (Inl err)
    let ?w2 = "issue b CallGetInventory ?w1"
    have c2: "calls ?w2 = calls w @ [(now w, CallGetInventory), (now ?w1, CallGetInventory)]"
      by (simp add: calls_issue)
    have ok: "\<forall>(t, c) \<in> set [(now w, CallGetInventory), (now ?w1, CallGetInventory)].
                \<not> isOrder c"
      by simp
    show ?thesis
    proof (cases "getInventory b ?w1")
      case invErr: (Inl invErr)
      with r1 Inl have "Create b data w =
          (failed [DiagError ''Instance Type or Location Invalid''
                     (UnableToValidate ?it ?loc err)], ?w2)"
        by (simp add: Create_def GetInventory_def Let_def)
      from Create_validation_failed [OF this c2 ok] show ?thesis by blast
    next
      case (Inr inventory)
      obtain ts ls m where "scanAlternatives ?it ?loc inventory [] [] Map.empty = (ts, ls, m)"
        by (rule prod_cases3)
      with r1 Inl Inr have "Create b data w =
          (failed [DiagError ''Invalid Instance Type and Location Combination''
                     (NotAvailable ?it ?loc ts ls m)], ?w2)"
        by (simp add: Create_def GetInventory_def Let_def)
      from Create_validation_failed [OF this c2 ok] show ?thesis by blast
    qed
  next
    case (Inr sku)
    let ?w2 = "validated b data w"
    have c2: "calls ?w2 = calls w @ [(now w, CallGetInventory), (now ?w1, CallGetAddons ?it ?loc)]"
      by (simp add: validated_def calls_issue)
    have ok: "\<forall>(t, c) \<in> set [(now w, CallGetInventory), (now ?w1, CallGetAddons ?it ?loc)].
                \<not> isOrder c"
      by simp
    show ?thesis
    proof (cases "getAddons b ?it ?loc ?w1")
      case (Inl osErr)
      with r1 Inr have "Create b data w =
          (failed [DiagError ''Unable to Retrieve Operating System Options''
                     (UnableToGetOperatingSystems ?it ?loc osErr)], ?w2)"
        by (simp add: Create_def GetAddons_def validated_def Let_def)
      from Create_validation_failed [OF this c2 ok] show ?thesis by blast
    next
      case addons: (Inr addons)
      obtain found names where scan:
        "scanOperatingSystems (ValueString (m_OperatingSystem data))
           (osa_Products (addons_OperatingSystems addons)) [] = (found, names)"
        by (cases "scanOperatingSystems (ValueString (m_OperatingSystem data))
           (osa_Products (addons_OperatingSystems addons)) []")
      show ?thesis
      proof (cases found)
        case None
        with r1 Inr addons scan have "Create b data w =
            (failed [DiagError ''Invalid Operating System''
                       (OperatingSystemNotAvailable (ValueString (m_OperatingSystem data))
                          ?it ?loc names)], ?w2)"
          by (simp add: Create_def GetAddons_def validated_def Let_def)
        from Create_validation_failed [OF this c2 ok] show ?thesis by blast
      next
        case (Some os)
        let ?req0 = "\<lparr>req_SkuProductName = ?it, req_Quantity = 1, req_LocationCode = ?loc,
                      req_OperatingSystemProductCode = os_ProductCode os, req_Hostname = [],
                      req_BillHourly = True, req_SSHKeyIDs = []\<rparr>"
        let ?req = "if \<not> IsNull (m_Hostname data)
                    then ?req0\<lparr>req_Hostname := ValueString (m_Hostname data)\<rparr> else ?req0"
        from Some r1 Inr addons scan
        have "Create b data w = Create_sshKeys b data ?req ?w2"
          by (simp add: Create_def GetAddons_def validated_def Let_def)
        moreover have "req_SSHKeyIDs ?req = []" by simp
        ultimately show ?thesis by blast
      qed
    qed
  qed
qed

lemma no_order_member:
  "(t, CallOrderServer request) \<in> set xs \<Longrightarrow> \<forall>(t, c) \<in> set xs. \<not> isOrder c \<Longrightarrow> False"
  by auto

lemma no_orders_count:
  "\<forall>(t, c) \<in> set xs. \<not> isOrder c \<Longrightarrow> filter (\<lambda>(t, c). isOrder c) xs = []"
  by (auto simp: filter_empty_conv)

lemma Create_labels_checked:
  assumes labels: "m_SSHKeyLabels data = ListValue (map StringValue labels)"
  shows "((\<exists>i < length labels.
             isl (fst (GetSSHKeyByLabel b (labels ! i) (lookupWorld b (validated b data w) i))))
          \<longrightarrow> HasError (Diagnostics (fst (Create b data w)))
              \<and> State (fst (Create b data w)) = None
              \<and> ordersIssued w (snd (Create b data w)) = 0)
       \<and> (\<forall>t request. (t, CallOrderServer request) \<in> set (newCalls w (snd (Create b data w)))
            \<longrightarrow> length (req_SSHKeyIDs request) = length labels
                \<and> (\<forall>i < length labels. \<exists>keys key.
                      getSSHKeys b (lookupWorld b (validated b data w) i) = Inr keys
                      \<and> find (\<lambda>k. key_Label k = labels ! i) keys = Some key
                      \<and> req_SSHKeyIDs request ! i = key_ID key))"
proof -
  let ?wv = "validated b data w"
  let ?A = "HasError (Diagnostics (fst (Create b data w)))
              \<and> State (fst (Create b data w)) = None
              \<and> ordersIssued w (snd (Create b data w)) = 0"
  let ?B = "\<forall>t request. (t, CallOrderServer request) \<in> set (newCalls w (snd (Create b data w)))
            \<longrightarrow> length (req_SSHKeyIDs request) = length labels
                \<and> (\<forall>i < length labels. \<exists>keys key.
                      getSSHKeys b (lookupWorld b ?wv i) = Inr keys
                      \<and> find (\<lambda>k. key_Label k = labels ! i) keys = Some key
                      \<and> req_SSHKeyIDs request ! i = key_ID key)"
  have stopped: "?A \<and> ?B"
    if res: "fst (Create b data w) = failed ds" "HasError ds"
      and log: "calls (snd (Create b data w)) = calls w @ xs" "\<forall>(t, c) \<in> set xs. \<not> isOrder c"
    for ds xs
  proof -
    from log(1) have new: "newCalls w (snd (Create b data w)) = xs" by (rule newCalls_append)
    from res have "HasError (Diagnostics (fst (Create b data w)))"
      "State (fst (Create b data w)) = None"
      by (simp_all add: failed_def)
    moreover from log(2) have "ordersIssued w (snd (Create b data w)) = 0"
      by (simp add: ordersIssued_def new no_orders_count)
    moreover have ?B
      unfolding new using log(2) by (blast dest: no_order_member)
    ultimately show ?thesis by blast
  qed
  from Create_validation [of b data w]
  consider (invalid) ds vs where "fst (Create b data w) = failed ds" "HasError ds"
      "calls (snd (Create b data w)) = calls w @ vs" "\<forall>(t, c) \<in> set vs. \<not> isOrder c"
    | (reached) orderReq where "req_SSHKeyIDs orderReq = []"
      "Create b data w = Create_sshKeys b data orderReq ?wv"
    by blast
  then have "?A \<and> ?B \<or> (\<exists>sshKeyIDs. fst (resolveSSHKeyLabels b labels [] ?wv) = Inr sshKeyIDs \<and> ?B)"
  proof cases
    case invalid
    then show ?thesis using stopped by blast
  next
    case reached
    from calls_validated [of b data w]
    obtain vs where vs: "calls ?wv = calls w @ vs" "\<forall>(t, c) \<in> set vs. \<not> isOrder c"
      by blast
    show ?thesis
    proof (cases "fst (resolveSSHKeyLabels b labels [] ?wv)")
      case (Inl a)
      obtain label err where a: "a = (label, err)" by (cases a)
      from Create_sshKeys_unresolved [OF labels Inl [unfolded a], of orderReq] reached(2)
      obtain ks where "fst (Create b data w)
            = failed [DiagError ''SSH Key Not Found'' (SSHKeyLabelNotFound label err)]"
        and ks: "calls (snd (Create b data w)) = calls ?wv @ ks"
          "\<forall>(t, c) \<in> set ks. \<not> isOrder c"
        by auto
      moreover have "HasError [DiagError ''SSH Key Not Found'' (SSHKeyLabelNotFound label err)]"
        by (simp add: HasError_def)
      moreover from ks vs have "calls (snd (Create b data w)) = calls w @ (vs @ ks)"
        "\<forall>(t, c) \<in> set (vs @ ks). \<not> isOrder c"
        by auto
      ultimately show ?thesis using stopped by blast
    next
      case (Inr sshKeyIDs)
      from Create_sshKeys_resolved [OF labels Inr reached(1)] reached(2)
      obtain ks t' request' rest
        where log: "calls (snd (Create b data w))
                      = calls ?wv @ ks @ (t', CallOrderServer request') # rest"
          and ids: "req_SSHKeyIDs request' = sshKeyIDs"
          and others: "\<forall>(t, c) \<in> set ks. \<not> isOrder c" "\<forall>(t, c) \<in> set rest. \<not> isOrder c"
        by auto
      from log vs(1) have new: "newCalls w (snd (Create b data w))
                                  = vs @ ks @ (t', CallOrderServer request') # rest"
        by (simp add: newCalls_append)
      from resolveSSHKeyLabels_Inr [OF Inr]
      have resolved: "length sshKeyIDs = length labels"
        "\<forall>i < length labels. \<exists>keys key.
             getSSHKeys b (lookupWorld b ?wv i) = Inr keys
             \<and> find (\<lambda>k. key_Label k = labels ! i) keys = Some key
             \<and> sshKeyIDs ! i = key_ID key"
        by auto
      have "request = request'"
        if "(t, CallOrderServer request) \<in> set (newCalls w (snd (Create b data w)))"
        for t request
        using that vs(2) others unfolding new by (auto dest: no_order_member)
      with resolved ids have ?B by blast
      with Inr show ?thesis by blast
    qed
  qed
  then consider (stop) "?A" "?B"
    | (order) sshKeyIDs where "fst (resolveSSHKeyLabels b labels [] ?wv) = Inr sshKeyIDs" "?B"
    by blast
  then show ?thesis
  proof cases
    case stop
    then show ?thesis by blast
  next
    case order
    note Inr = order(1)
    have "\<not> (\<exists>i < length labels.
             isl (fst (GetSSHKeyByLabel b (labels ! i) (lookupWorld b ?wv i))))"
    proof
      assume "\<exists>i < length labels.
             isl (fst (GetSSHKeyByLabel b (labels ! i) (lookupWorld b ?wv i)))"
      then obtain i where "i < length labels"
        "isl (fst (GetSSHKeyByLabel b (labels ! i) (lookupWorld b ?wv i)))" by blast
      from resolveSSHKeyLabels_unresolved [OF this, of "[]"] Inr show False by auto
    qed
    with \<open>?B\<close> show ?thesis by blast
  qed
qed

lemma Create_sshKeys_orders:
  "\<exists>xs. calls (snd (Create_sshKeys b data orderReq w)) = calls w @ xs
        \<and> length (filter (\<lambda>(t, c). isOrder c) xs) \<le> 1"
proof (cases "ListIsNull (m_SSHKeyLabels data)")
  case True
  from Create_order_calls [of b data "[]" orderReq w]
  obtain rest where "calls (snd (Create_order b data [] orderReq w))
                       = calls w @ (now w, CallOrderServer orderReq) # rest"
    "\<forall>(t, c) \<in> set rest. \<not> isOrder c" by blast
  with True show ?thesis
    by (intro exI [of _ "(now w, CallOrderServer orderReq) # rest"])
       (simp add: Create_sshKeys_def no_orders_count)
next
  case False
  obtain ds sshKeyLabels where el: "ElementsAs (m_SSHKeyLabels data) = (ds, sshKeyLabels)"
    by (cases "ElementsAs (m_SSHKeyLabels data)")
  show ?thesis
  proof (cases "HasError ds")
    case True
    with False el have "snd (Create_sshKeys b data orderReq w) = w"
      by (simp add: Create_sshKeys_def)
    then show ?thesis by (intro exI [of _ "[]"]) simp
  next
    case noError: False
    obtain r w1 where r: "resolveSSHKeyLabels b sshKeyLabels [] w = (r, w1)"
      by (cases "resolveSSHKeyLabels b sshKeyLabels [] w")
    from resolveSSHKeyLabels_calls [of b sshKeyLabels "[]" w] r
    obtain ks where ks: "calls w1 = calls w @ ks" "\<forall>(t, c) \<in> set ks. c = CallGetSSHKeys"
      by auto
    then have none: "filter (\<lambda>(t, c). isOrder c) ks = []"
      by (auto simp: filter_empty_conv)
    show ?thesis
    proof (cases r)
      case (Inl a)
      with False el noError r have "snd (Create_sshKeys b data orderReq w) = w1"
        by (cases a) (simp add: Create_sshKeys_def)
      with ks(1) none show ?thesis by (intro exI [of _ ks]) simp
    next
      case (Inr sshKeyIDs)
      let ?request = "if length sshKeyIDs > 0 then orderReq\<lparr>req_SSHKeyIDs := sshKeyIDs\<rparr>
                      else orderReq"
      from Create_order_calls [of b data ds ?request w1]
      obtain rest where rest: "calls (snd (Create_order b data ds ?request w1))
                                 = calls w1 @ (now w1, CallOrderServer ?request) # rest"
        "\<forall>(t, c) \<in> set rest. \<not> isOrder c" by blast
      from False el noError r Inr
      have "Create_sshKeys b data orderReq w = Create_order b data ds ?request w1"
        by (simp add: Create_sshKeys_def)
      with rest(1) ks(1) have "calls (snd (Create_sshKeys b data orderReq w))
                                 = calls w @ (ks @ (now w1, CallOrderServer ?request) # rest)"
        by simp
      moreover have "length (filter (\<lambda>(t, c). isOrder c)
                               (ks @ (now w1, CallOrderServer ?request) # rest)) \<le> 1"
        using none rest(2) by (simp add: no_orders_count)
      ultimately show ?thesis by blast
    qed
  qed
qed

lemma Create_orders:
  "\<exists>xs. calls (snd (Create b data w)) = calls w @ xs
        \<and> length (filter (\<lambda>(t, c). isOrder c) xs) \<le> 1"
proof -
  from Create_validation [of b data w]
  consider (invalid) ds vs where "fst (Create b data w) = failed ds" "HasError ds"
      "calls (snd (Create b data w)) = calls w @ vs" "\<forall>(t, c) \<in> set vs. \<not> isOrder c"
    | (reached) orderReq where "req_SSHKeyIDs orderReq = []"
      "Create b data w = Create_sshKeys b data orderReq (validated b data w)"
    by blast
  then show ?thesis
  proof cases
    case invalid
    then show ?thesis by (intro exI [of _ vs]) (simp add: no_orders_count)
  next
    case reached
    from calls_validated [of b data w]
    obtain vs where vs: "calls (validated b data w) = calls w @ vs"
      "\<forall>(t, c) \<in> set vs. \<not> isOrder c" by blast
    from Create_sshKeys_orders [of b data orderReq "validated b data w"] reached(2)
    obtain xs where xs: "calls (snd (Create b data w)) = calls (validated b data w) @ xs"
      "length (filter (\<lambda>(t, c). isOrder c) xs) \<le> 1" by auto
    from vs xs show ?thesis
      by (intro exI [of _ "vs @ xs"]) (simp add: no_orders_count)
  qed
qed

lemma Create_order_saved_serviceID:
  assumes "orderServer b orderReq v = Inr orderResp"
    and "ord_OrderServiceIDs orderResp = serviceID # others"
    and "State (fst (Create_order b data ds orderReq v)) = Some m"
  shows "m_ServiceID m = Int64Value serviceID"
proof -
  let ?w1 = "issue b (CallOrderServer orderReq) v"
  obtain r2 w2 where wait: "waitForServerProvisioning b serviceID (30 * Minute) ?w1 = (r2, w2)"
    by (cases "waitForServerProvisioning b serviceID (30 * Minute) ?w1")
  show ?thesis
  proof (cases r2)
    case (Inl err)
    with assms wait show ?thesis
      by (simp add: Create_order_def OrderServer_def failed_def)
  next
    case (Inr server)
    with wait have "fst (waitLoop b serviceID (now ?w1 + 30 * Minute) ?w1) = Inr server"
      by (simp add: waitForServerProvisioning_def)
    then have sid: "srv_ServiceID server = serviceID"
      by (rule waitLoop_success_serviceID)
    from assms wait Inr have "m = updateModelFromServer data server"
      by (simp add: Create_order_def OrderServer_def split: if_splits prod.splits option.splits)
    with sid show ?thesis by (simp add: updateModelFromServer_fields)
  qed
qed

lemma GetSSHKeyByLabel_pair:
  "GetSSHKeyByLabel b label w = (fst (GetSSHKeyByLabel b label w), issue b CallGetSSHKeys w)"
  by (simp add: prod_eq_iff GetSSHKeyByLabel_world)

lemma resolvesTo_Nil: "resolvesTo b w [] ids \<longleftrightarrow> ids = []"
  by (simp add: resolvesTo_def)

lemma resolvesTo_Cons:
  "resolvesTo b w (label # rest) ids \<longleftrightarrow>
     (\<exists>key ids'. ids = key_ID key # ids'
        \<and> fst (GetSSHKeyByLabel b label w) = Inr key
        \<and> resolvesTo b (issue b CallGetSSHKeys w) rest ids')"
proof
  assume r: "resolvesTo b w (label # rest) ids"
  then obtain k ids' where ids: "ids = k # ids'" "length ids' = length rest"
    by (cases ids) (auto simp: resolvesTo_def)
  from r have each: "\<And>i. i < Suc (length rest) \<Longrightarrow>
           (case getSSHKeys b (lookupWorld b w i) of
             Inl err \<Rightarrow> False
           | Inr keys \<Rightarrow>
               (case find (\<lambda>k. key_Label k = (label # rest) ! i) keys of
                  None \<Rightarrow> False
                | Some key \<Rightarrow> ids ! i = key_ID key))"
    by (simp add: resolvesTo_def)
  from each [of 0] ids obtain key where key: "fst (GetSSHKeyByLabel b label w) = Inr key"
    "k = key_ID key"
    by (auto simp: GetSSHKeyByLabel_result split: sum.splits option.splits)
  have "resolvesTo b (issue b CallGetSSHKeys w) rest ids'"
    unfolding resolvesTo_def
  proof (intro conjI allI impI)
    show "length ids' = length rest" by (rule ids(2))
  next
    fix i assume "i < length rest"
    then have "Suc i < Suc (length rest)" by simp
    from each [OF this] ids show "case getSSHKeys b (lookupWorld b (issue b CallGetSSHKeys w) i) of
             Inl err \<Rightarrow> False
           | Inr keys \<Rightarrow>
               (case find (\<lambda>k. key_Label k = rest ! i) keys of
                  None \<Rightarrow> False
                | Some key \<Rightarrow> ids' ! i = key_ID key)"
      by (simp add: lookupWorld_Suc split: sum.splits option.splits)
  qed
  with ids key show "\<exists>key ids'. ids = key_ID key # ids'
        \<and> fst (GetSSHKeyByLabel b label w) = Inr key
        \<and> resolvesTo b (issue b CallGetSSHKeys w) rest ids'"
    by blast
next
  assume "\<exists>key ids'. ids = key_ID key # ids'
        \<and> fst (GetSSHKeyByLabel b label w) = Inr key
        \<and> resolvesTo b (issue b CallGetSSHKeys w) rest ids'"
  then obtain key ids' where ids: "ids = key_ID key # ids'"
    and key: "fst (GetSSHKeyByLabel b label w) = Inr key"
    and rest: "resolvesTo b (issue b CallGetSSHKeys w) rest ids'"
    by blast
  from key obtain keys where keys: "getSSHKeys b w = Inr keys"
    "find (\<lambda>k. key_Label k = label) keys = Some key"
    unfolding GetSSHKeyByLabel_found by blast
  show "resolvesTo b w (label # rest) ids"
    unfolding resolvesTo_def
  proof (intro conjI allI impI)
    from rest ids show "length ids = length (label # rest)" by (simp add: resolvesTo_def)
  next
    fix i assume "i < length (label # rest)"
    show "case getSSHKeys b (lookupWorld b w i) of
             Inl err \<Rightarrow> False
           | Inr keys \<Rightarrow>
               (case find (\<lambda>k. key_Label k = (label # rest) ! i) keys of
                  None \<Rightarrow> False
                | Some key \<Rightarrow> ids ! i = key_ID key)"
    proof (cases i)
      case 0
      with keys ids show ?thesis by simp
    next
      case (Suc j)
      with \<open>i < length (label # rest)\<close> have "j < length rest" by simp
      with rest have "case getSSHKeys b (lookupWorld b (issue b CallGetSSHKeys w) j) of
             Inl err \<Rightarrow> False
           | Inr keys \<Rightarrow>
               (case find (\<lambda>k. key_Label k = rest ! j) keys of
                  None \<Rightarrow> False
                | Some key \<Rightarrow> ids' ! j = key_ID key)"
        unfolding resolvesTo_def by blast
      with Suc ids show ?thesis
        by (simp add: lookupWorld_Suc split: sum.splits option.splits)
    qed
  qed
qed

lemma resolveSSHKeyLabels_success:
  "resolvesTo b w labels ids \<Longrightarrow>
     resolveSSHKeyLabels b labels sshKeyIDs w
       = (Inr (sshKeyIDs @ ids), lookupWorld b w (length labels))"
proof (induction labels arbitrary: sshKeyIDs w ids)
  case Nil
  then show ?case by (simp add: resolvesTo_Nil)
next
  case (Cons label rest)
  from Cons.prems obtain key ids' where ids: "ids = key_ID key # ids'"
    and key: "fst (GetSSHKeyByLabel b label w) = Inr key"
    and rest: "resolvesTo b (issue b CallGetSSHKeys w) rest ids'"
    unfolding resolvesTo_Cons by blast
  from key have "GetSSHKeyByLabel b label w = (Inr key, issue b CallGetSSHKeys w)"
    using GetSSHKeyByLabel_pair [of b label w] by simp
  with Cons.IH [OF rest, of "sshKeyIDs @ [key_ID key]"] ids show ?case
    by (simp add: lookupWorld_Suc)
qed

lemma resolveSSHKeyLabels_failure:
  assumes "i < length labels"
    and "resolvesTo b w (take i labels) ids"
    and "fst (GetSSHKeyByLabel b (labels ! i) (lookupWorld b w i)) = Inl err"
  shows "resolveSSHKeyLabels b labels sshKeyIDs w
           = (Inl (labels ! i, err), lookupWorld b w (Suc i))"
  using assms
proof (induction labels arbitrary: sshKeyIDs w ids i)
  case Nil
  then show ?case by simp
next
  case (Cons label rest)
  show ?case
  proof (cases i)
    case 0
    with Cons.prems(3) have "GetSSHKeyByLabel b label w = (Inl err, issue b CallGetSSHKeys w)"
      using GetSSHKeyByLabel_pair [of b label w] by simp
    with 0 show ?thesis by (simp add: lookupWorld_Suc)
  next
    case (Suc j)
    with Cons.prems(2) obtain key ids' where key: "fst (GetSSHKeyByLabel b label w) = Inr key"
      and rest: "resolvesTo b (issue b CallGetSSHKeys w) (take j rest) ids'"
      by (auto simp: resolvesTo_Cons)
    from key have first: "GetSSHKeyByLabel b label w = (Inr key, issue b CallGetSSHKeys w)"
      using GetSSHKeyByLabel_pair [of b label w] by simp
    from Cons.prems(1) Suc have j: "j < length rest" by simp
    from Cons.prems(3) Suc
    have "fst (GetSSHKeyByLabel b (rest ! j) (lookupWorld b (issue b CallGetSSHKeys w) j)) = Inl err"
      by (simp add: lookupWorld_Suc)
    from Cons.IH [OF j rest this, of "sshKeyIDs @ [key_ID key]"] first Suc show ?thesis
      by (simp add: lookupWorld_Suc)
  qed
qed

lemma Create_validated:
  assumes "passesValidation b data w os"
  shows "Create b data w
           = Create_sshKeys b data (orderRequest data os []) (validated b data w)"
proof -
  let ?it = "ValueString (m_InstanceType data)" and ?loc = "ValueString (m_Location data)"
  let ?w1 = "issue b CallGetInventory w"
  from assms obtain sku addons
    where sku: "fst (FindSKUByProductName b ?it ?loc w) = Inr sku"
      and addons: "getAddons b ?it ?loc ?w1 = Inr addons"
      and os: "fst (scanOperatingSystems (ValueString (m_OperatingSystem data))
                      (osa_Products (addons_OperatingSystems addons)) []) = Some os"
    by (auto simp: passesValidation_def split: sum.splits)
  from sku have find: "FindSKUByProductName b ?it ?loc w = (Inr sku, ?w1)"
    using FindSKUByProductName_world [of b ?it ?loc w] by (simp add: prod_eq_iff)
  from os obtain names where scan:
    "scanOperatingSystems (ValueString (m_OperatingSystem data))
       (osa_Products (addons_OperatingSystems addons)) [] = (Some os, names)"
    by (cases "scanOperatingSystems (ValueString (m_OperatingSystem data))
       (osa_Products (addons_OperatingSystems addons)) []") simp
  from find addons scan show ?thesis
    by (simp add: Create_def GetAddons_def validated_def Let_def orderRequest_def)
qed

lemma Create_reaches_order:
  assumes labels: "m_SSHKeyLabels data = ListNull \<and> labels = []
                     \<or> m_SSHKeyLabels data = ListValue (map StringValue labels)"
    and valid: "passesValidation b data w os"
    and resolved: "resolvesTo b (validated b data w) labels ids"
  shows "Create b data w
           = Create_order b data [] (orderRequest data os ids)
               (lookupWorld b (validated b data w) (length labels))"
proof -
  let ?wv = "validated b data w"
  note start = Create_validated [OF valid]
  from labels show ?thesis
  proof
    assume null: "m_SSHKeyLabels data = ListNull \<and> labels = []"
    with resolved have "ids = []" by (simp add: resolvesTo_Nil)
    with null start show ?thesis by (simp add: Create_sshKeys_def)
  next
    assume list: "m_SSHKeyLabels data = ListValue (map StringValue labels)"
    have request: "(if length ids > 0 then (orderRequest data os [])\<lparr>req_SSHKeyIDs := ids\<rparr>
                    else orderRequest data os []) = orderRequest data os ids"
      by (simp add: orderRequest_def)
    from resolveSSHKeyLabels_success [OF resolved, of "[]"]
    have "Create_sshKeys b data (orderRequest data os []) ?wv
            = Create_order b data []
                (if length ids > 0 then (orderRequest data os [])\<lparr>req_SSHKeyIDs := ids\<rparr>
                 else orderRequest data os [])
                (lookupWorld b ?wv (length labels))"
      by (simp add: Create_sshKeys_labels [OF list])
    with start show ?thesis unfolding request by simp
  qed
qed

lemma Create_label_fails:
  assumes labels: "m_SSHKeyLabels data = ListValue (map StringValue labels)"
    and valid: "passesValidation b data w os"
    and i: "i < length labels"
    and before: "resolvesTo b (validated b data w) (take i labels) ids"
    and fails: "fst (GetSSHKeyByLabel b (labels ! i) (lookupWorld b (validated b data w) i))
                  = Inl err"
  shows "Create b data w =
           (failed [DiagError ''SSH Key Not Found'' (SSHKeyLabelNotFound (labels ! i) err)],
            lookupWorld b (validated b data w) (Suc i))"
  using resolveSSHKeyLabels_failure [OF i before fails, of "[]"]
  by (simp add: Create_validated [OF valid] Create_sshKeys_labels [OF labels])

lemma calls_lookupWorld_replicate:
  "\<exists>ks. calls (lookupWorld b w n) = calls w @ ks \<and> map snd ks = replicate n CallGetSSHKeys"
proof (induction n arbitrary: w)
  case 0
  show ?case by simp
next
  case (Suc n)
  from Suc [of "issue b CallGetSSHKeys w"]
  obtain ks where "calls (lookupWorld b w (Suc n)) = calls w @ (now w, CallGetSSHKeys) # ks"
    and "map snd ks = replicate n CallGetSSHKeys"
    by (auto simp: lookupWorld_Suc calls_issue)
  then show ?case by (intro exI [of _ "(now w, CallGetSSHKeys) # ks"]) simp
qed

lemma newCalls_lookups:
  "\<exists>xs. calls (lookupWorld b (validated b data w) n) = calls w @ xs
        \<and> map snd xs = CallGetInventory
            # CallGetAddons (ValueString (m_InstanceType data)) (ValueString (m_Location data))
            # replicate n CallGetSSHKeys"
proof -
  from calls_lookupWorld_replicate [of b "validated b data w" n]
  obtain ks where "calls (lookupWorld b (validated b data w) n) = calls (validated b data w) @ ks"
    "map snd ks = replicate n CallGetSSHKeys" by blast
  then show ?thesis
    by (simp add: validated_def calls_issue)
qed

lemma newCalls_of_order:
  assumes "Create b data w = Create_order b data [] request v"
    and "calls (snd (Create_order b data [] request v))
           = calls v @ (now v, CallOrderServer request) # rest"
    and "calls v = calls w @ xs"
  shows "newCalls w (snd (Create b data w)) = xs @ (now v, CallOrderServer request) # rest"
  using assms by (simp add: newCalls_def)

lemma lookups_are_no_orders:
  assumes "map snd xs = CallGetInventory # CallGetAddons instanceType location
                          # replicate n CallGetSSHKeys"
  shows "\<forall>(t, c) \<in> set xs. \<not> isOrder c"
proof -
  have "\<not> isOrder c" if "c \<in> set (map snd xs)" for c
    using that unfolding assms by auto
  then show ?thesis by force
qed

lemma one_order_logged:
  assumes "newCalls w w' = xs @ (t, CallOrderServer request) # rest"
    and "\<forall>(t, c) \<in> set xs. \<not> isOrder c" and "\<forall>(t, c) \<in> set rest. \<not> isOrder c"
  shows "ordersIssued w w' = 1"
  using assms by (simp add: ordersIssued_def no_orders_count)

lemma order_after_lookups:
  assumes "newCalls w w' = xs @ (t, CallOrderServer request) # rest"
    and "map snd xs = CallGetInventory # CallGetAddons instanceType location
                        # replicate n CallGetSSHKeys"
  shows "map snd (newCalls w w')
           = CallGetInventory # CallGetAddons instanceType location
             # replicate n CallGetSSHKeys @ CallOrderServer request # map snd rest"
  using assms by simp

lemma Create_order_logged:
  assumes labels: "m_SSHKeyLabels data = ListNull \<and> labels = []
                     \<or> m_SSHKeyLabels data = ListValue (map StringValue labels)"
    and valid: "passesValidation b data w os"
    and resolved: "resolvesTo b (validated b data w) labels ids"
  shows "\<exists>rest. map snd (newCalls w (snd (Create b data w)))
                  = CallGetInventory
                    # CallGetAddons (ValueString (m_InstanceType data))
                        (ValueString (m_Location data))
                    # replicate (length labels) CallGetSSHKeys
                    @ CallOrderServer (orderRequest data os ids) # rest
                \<and> (\<forall>c \<in> set rest. \<not> isOrder c)"
    and "ordersIssued w (snd (Create b data w)) = 1"
proof -
  let ?v = "lookupWorld b (validated b data w) (length labels)"
  let ?request = "orderRequest data os ids"
  note reach = Create_reaches_order [OF labels valid resolved]
  from newCalls_lookups [of b data w "length labels"]
  obtain xs where xs: "calls ?v = calls w @ xs"
    "map snd xs = CallGetInventory
            # CallGetAddons (ValueString (m_InstanceType data)) (ValueString (m_Location data))
            # replicate (length labels) CallGetSSHKeys"
    by (elim exE conjE)
  from Create_order_calls [of b data "[]" ?request ?v]
  obtain rest where rest: "calls (snd (Create_order b data [] ?request ?v))
                             = calls ?v @ (now ?v, CallOrderServer ?request) # rest"
    "\<forall>(t, c) \<in> set rest. \<not> isOrder c"
    by (elim exE conjE)
  note new = newCalls_of_order [OF reach rest(1) xs(1)]
  note shape = order_after_lookups [OF new xs(2)]
  from rest(2) have "\<forall>c \<in> set (map snd rest). \<not> isOrder c" by force
  with shape
  show "\<exists>rest. map snd (newCalls w (snd (Create b data w)))
                  = CallGetInventory
                    # CallGetAddons (ValueString (m_InstanceType data))
                        (ValueString (m_Location data))
                    # replicate (length labels) CallGetSSHKeys
                    @ CallOrderServer (orderRequest data os ids) # rest
                \<and> (\<forall>c \<in> set rest. \<not> isOrder c)"
    by (intro exI [of _ "map snd rest"] conjI)
  show "ordersIssued w (snd (Create b data w)) = 1"
    by (rule one_order_logged [OF new lookups_are_no_orders [OF xs(2)] rest(2)])
qed

text \<open>
  Claim C7. Create looks the supplied labels up one after the other, each against a
  freshly fetched full key list, by equality of the label. If the lookup of any label
  fails (in the world in which Create makes it), Create ends with an error diagnostic and
  no state, and its call log holds no order submission; every order that Create submits
  carries one key identifier per label, in order: the identifier of the first key of the
  list fetched for that label whose label equals it. When the validations pass, the run
  is determined. If the labels before the \<open>i\<close>-th resolve and the lookup of the
  \<open>i\<close>-th fails, Create fetches the key list \<open>i + 1\<close> times and fails with the error
  "SSH Key Not Found" for that label, and nothing else is called. If every label
  resolves, Create fetches the key list once per label and then submits one order, whose
  key identifiers are the resolved ones.
\<close>

theorem Create_unresolved_label_never_orders:
  assumes labels: "m_SSHKeyLabels data = ListValue (map StringValue labels)"
  shows "((\<exists>i < length labels.
             isl (fst (GetSSHKeyByLabel b (labels ! i) (lookupWorld b (validated b data w) i))))
          \<longrightarrow> HasError (Diagnostics (fst (Create b data w)))
              \<and> State (fst (Create b data w)) = None
              \<and> ordersIssued w (snd (Create b data w)) = 0)
       \<and> (\<forall>t request. (t, CallOrderServer request) \<in> set (newCalls w (snd (Create b data w)))
            \<longrightarrow> length (req_SSHKeyIDs request) = length labels
                \<and> (\<forall>i < length labels. \<exists>keys key.
                      getSSHKeys b (lookupWorld b (validated b data w) i) = Inr keys
                      \<and> find (\<lambda>k. key_Label k = labels ! i) keys = Some key
                      \<and> req_SSHKeyIDs request ! i = key_ID key))
       \<and> (passesValidation b data w os \<and> i < length labels
            \<and> resolvesTo b (validated b data w) (take i labels) before
            \<and> fst (GetSSHKeyByLabel b (labels ! i) (lookupWorld b (validated b data w) i))
                = Inl err
          \<longrightarrow> Create b data w =
                (failed [DiagError ''SSH Key Not Found'' (SSHKeyLabelNotFound (labels ! i) err)],
                 lookupWorld b (validated b data w) (Suc i))
              \<and> map snd (newCalls w (snd (Create b data w)))
                  = CallGetInventory
                    # CallGetAddons (ValueString (m_InstanceType data))
                        (ValueString (m_Location data))
                    # replicate (Suc i) CallGetSSHKeys)
       \<and> (passesValidation b data w os \<and> resolvesTo b (validated b data w) labels ids
          \<longrightarrow> (\<exists>rest. map snd (newCalls w (snd (Create b data w)))
                        = CallGetInventory
                          # CallGetAddons (ValueString (m_InstanceType data))
                              (ValueString (m_Location data))
                          # replicate (length labels) CallGetSSHKeys
                          @ CallOrderServer (orderRequest data os ids) # rest
                      \<and> (\<forall>c \<in> set rest. \<not> isOrder c))
              \<and> ordersIssued w (snd (Create b data w)) = 1)"
proof -
  note checked = Create_labels_checked [OF labels, of b w]
  have stops: "passesValidation b data w os \<and> i < length labels
            \<and> resolvesTo b (validated b data w) (take i labels) before
            \<and> fst (GetSSHKeyByLabel b (labels ! i) (lookupWorld b (validated b data w) i))
                = Inl err
          \<longrightarrow> Create b data w =
                (failed [DiagError ''SSH Key Not Found'' (SSHKeyLabelNotFound (labels ! i) err)],
                 lookupWorld b (validated b data w) (Suc i))
              \<and> map snd (newCalls w (snd (Create b data w)))
                  = CallGetInventory
                    # CallGetAddons (ValueString (m_InstanceType data))
                        (ValueString (m_Location data))
                    # replicate (Suc i) CallGetSSHKeys"
  proof (intro impI, elim conjE)
    assume that: "passesValidation b data w os" "i < length labels"
      "resolvesTo b (validated b data w) (take i labels) before"
      "fst (GetSSHKeyByLabel b (labels ! i) (lookupWorld b (validated b data w) i)) = Inl err"
    note res = Create_label_fails [OF labels that]
    from newCalls_lookups [of b data w "Suc i"]
    obtain xs where xs: "calls (lookupWorld b (validated b data w) (Suc i)) = calls w @ xs"
      "map snd xs = CallGetInventory
            # CallGetAddons (ValueString (m_InstanceType data)) (ValueString (m_Location data))
            # replicate (Suc i) CallGetSSHKeys"
      by (elim exE conjE)
    from res xs(1) have "newCalls w (snd (Create b data w)) = xs"
      by (simp add: newCalls_def)
    with xs(2) have "map snd (newCalls w (snd (Create b data w)))
                  = CallGetInventory
                    # CallGetAddons (ValueString (m_InstanceType data))
                        (ValueString (m_Location data))
                    # replicate (Suc i) CallGetSSHKeys"
      by simp
    with res show "Create b data w =
                (failed [DiagError ''SSH Key Not Found'' (SSHKeyLabelNotFound (labels ! i) err)],
                 lookupWorld b (validated b data w) (Suc i))
              \<and> map snd (newCalls w (snd (Create b data w)))
                  = CallGetInventory
                    # CallGetAddons (ValueString (m_InstanceType data))
                        (ValueString (m_Location data))
                    # replicate (Suc i) CallGetSSHKeys"
      by (intro conjI)
  qed
  have orders: "passesValidation b data w os \<and> resolvesTo b (validated b data w) labels ids
          \<longrightarrow> (\<exists>rest. map snd (newCalls w (snd (Create b data w)))
                        = CallGetInventory
                          # CallGetAddons (ValueString (m_InstanceType data))
                              (ValueString (m_Location data))
                          # replicate (length labels) CallGetSSHKeys
                          @ CallOrderServer (orderRequest data os ids) # rest
                      \<and> (\<forall>c \<in> set rest. \<not> isOrder c))
              \<and> ordersIssued w (snd (Create b data w)) = 1"
  proof (intro impI, elim conjE)
    assume that: "passesValidation b data w os" "resolvesTo b (validated b data w) labels ids"
    from Create_order_logged [OF disjI2 [OF labels] that]
    show "(\<exists>rest. map snd (newCalls w (snd (Create b data w)))
                        = CallGetInventory
                          # CallGetAddons (ValueString (m_InstanceType data))
                              (ValueString (m_Location data))
                          # replicate (length labels) CallGetSSHKeys
                          @ CallOrderServer (orderRequest data os ids) # rest
                      \<and> (\<forall>c \<in> set rest. \<not> isOrder c))
              \<and> ordersIssued w (snd (Create b data w)) = 1"
      by (rule conjI)
  qed
  show ?thesis
    by (rule conjI [OF checked [THEN conjunct1]
               conjI [OF checked [THEN conjunct2] conjI [OF stops orders]]])
qed

text \<open>With the key \<open>deploy\<close> listed, the plan with the label \<open>deploy\<close> is ordered
  with that key's identifier after one lookup; the plan with the labels \<open>deploy\<close> and
  \<open>ops\<close> fails at \<open>ops\<close> after two lookups and orders nothing.\<close>

theorem Create_unresolved_label_never_orders_witness:
  "ordersIssued world0 (snd (Create (shopBackend [keyDeploy] []) plan0 world0)) = 1
   \<and> take 4 (map snd (newCalls world0 (snd (Create (shopBackend [keyDeploy] []) plan0 world0))))
       = [CallGetInventory, CallGetAddons ''c1.small'' ''ORD1'', CallGetSSHKeys,
          CallOrderServer (orderReq0\<lparr>req_SSHKeyIDs := [3]\<rparr>)]
   \<and> fst (Create (shopBackend [keyDeploy] []) plan1 world0)
       = failed [DiagError ''SSH Key Not Found''
                   (SSHKeyLabelNotFound ''ops'' (SSHKeyNotFound ''ops''))]
   \<and> map snd (newCalls world0 (snd (Create (shopBackend [keyDeploy] []) plan1 world0)))
       = [CallGetInventory, CallGetAddons ''c1.small'' ''ORD1'', CallGetSSHKeys, CallGetSSHKeys]
   \<and> ordersIssued world0 (snd (Create (shopBackend [keyDeploy] []) plan1 world0)) = 0"
proof -
  let ?b = "shopBackend [keyDeploy] []"
  have keys: "getSSHKeys ?b v = Inr [keyDeploy]" for v
    by (simp add: shopBackend_def)
  have fields0: "ValueString (m_InstanceType plan0) = ''c1.small''"
    "ValueString (m_Location plan0) = ''ORD1''"
    by (simp_all add: plan0_def)
  have fields1: "ValueString (m_InstanceType plan1) = ''c1.small''"
    "ValueString (m_Location plan1) = ''ORD1''"
    by (simp_all add: plan1_def plan0_def)
  have labels0: "m_SSHKeyLabels plan0 = ListValue (map StringValue [''deploy''])"
    by (simp add: plan0_def)
  have labels1: "m_SSHKeyLabels plan1 = ListValue (map StringValue [''deploy'', ''ops''])"
    by (simp add: plan1_def)
  have valid0: "passesValidation ?b plan0 world0 ubuntu"
    by (simp add: passesValidation_def FindSKUByProductName_cases shopBackend_def
        idleBackend_def plan0_def qualifies_def mkItem_def ubuntu_def)
  have valid1: "passesValidation ?b plan1 world0 ubuntu"
    by (simp add: passesValidation_def FindSKUByProductName_cases shopBackend_def
        idleBackend_def plan1_def plan0_def qualifies_def mkItem_def ubuntu_def)
  have listed: "key_Label keyDeploy = ''deploy''" "key_ID keyDeploy = 3"
    by (simp_all add: keyDeploy_def mkKey_def)
  have resolved0: "resolvesTo ?b (validated ?b plan0 world0) [''deploy''] [3]"
    by (simp add: resolvesTo_def keys listed)
  have resolved1: "resolvesTo ?b (validated ?b plan1 world0) (take 1 [''deploy'', ''ops'']) [3]"
    by (simp add: resolvesTo_def keys listed)
  have fails1: "fst (GetSSHKeyByLabel ?b ([''deploy'', ''ops''] ! 1)
                       (lookupWorld ?b (validated ?b plan1 world0) 1))
                  = Inl (SSHKeyNotFound ''ops'')"
    by (simp add: GetSSHKeyByLabel_result keys listed)
  have request: "orderRequest plan0 ubuntu [3] = orderReq0\<lparr>req_SSHKeyIDs := [3]\<rparr>"
    by (simp add: orderRequest_def orderReq0_def plan0_def ubuntu_def)
  note ordered = Create_unresolved_label_never_orders
                   [OF labels0, of ?b world0 ubuntu _ _ _ "[3]",
                    THEN conjunct2, THEN conjunct2, THEN conjunct2, rule_format,
                    OF conjI [OF valid0 resolved0]]
  note ordered' = ordered [unfolded fields0 request]
  from ordered' have once: "ordersIssued world0 (snd (Create ?b plan0 world0)) = 1"
    by (rule conjunct2)
  from ordered' [THEN conjunct1] obtain rest where
    "map snd (newCalls world0 (snd (Create ?b plan0 world0)))
       = CallGetInventory # CallGetAddons ''c1.small'' ''ORD1''
         # replicate (length [''deploy'']) CallGetSSHKeys
         @ CallOrderServer (orderReq0\<lparr>req_SSHKeyIDs := [3]\<rparr>) # rest"
    and "\<forall>c \<in> set rest. \<not> isOrder c"
    by (elim exE conjE)
  then have first: "take 4 (map snd (newCalls world0 (snd (Create ?b plan0 world0))))
       = [CallGetInventory, CallGetAddons ''c1.small'' ''ORD1'', CallGetSSHKeys,
          CallOrderServer (orderReq0\<lparr>req_SSHKeyIDs := [3]\<rparr>)]"
    by simp
  have unresolved: "\<exists>i < length [''deploy'', ''ops''].
          isl (fst (GetSSHKeyByLabel ?b ([''deploy'', ''ops''] ! i)
                      (lookupWorld ?b (validated ?b plan1 world0) i)))"
    using fails1 by (intro exI [of _ 1]) simp
  note none = Create_unresolved_label_never_orders
                [OF labels1, of ?b world0, THEN conjunct1, THEN mp, OF unresolved,
                 THEN conjunct2, THEN conjunct2]
  note stopped = Create_unresolved_label_never_orders
                   [OF labels1, of ?b world0 ubuntu 1 "[3]" "SSHKeyNotFound ''ops''",
                    THEN conjunct2, THEN conjunct2, THEN conjunct1, rule_format]
  have "passesValidation ?b plan1 world0 ubuntu \<and> 1 < length [''deploy'', ''ops'']
            \<and> resolvesTo ?b (validated ?b plan1 world0) (take 1 [''deploy'', ''ops'']) [3]
            \<and> fst (GetSSHKeyByLabel ?b ([''deploy'', ''ops''] ! 1)
                      (lookupWorld ?b (validated ?b plan1 world0) 1))
                = Inl (SSHKeyNotFound ''ops'')"
    using valid1 resolved1 fails1 by simp
  note stopped' = stopped [OF this, unfolded fields1]
  from stopped' [THEN conjunct1]
  have second: "fst (Create ?b plan1 world0)
       = failed [DiagError ''SSH Key Not Found''
                   (SSHKeyLabelNotFound ''ops'' (SSHKeyNotFound ''ops''))]"
    by simp
  from stopped' [THEN conjunct2]
  have third: "map snd (newCalls world0 (snd (Create ?b plan1 world0)))
       = [CallGetInventory, CallGetAddons ''c1.small'' ''ORD1'', CallGetSSHKeys, CallGetSSHKeys]"
    by (simp add: numeral_2_eq_2)
  from once first second third none show ?thesis by simp
qed

text \<open>
  Claim C8. No run of Create submits more than one order. When the validations pass and
  the labels resolve, Create submits exactly one order, and with a successful submission
  the rest of the run is decided by the service identifiers returned. If the sequence is
  empty, Create fails with the error "Server Order Failed" and calls nothing after the
  submission. If it is not empty, provisioning is awaited for its first entry: a failed
  wait is reported for that identifier, a server found has that service identifier and
  the state saved is the model updated from it, and every state saved has that
  identifier as \<open>service_id\<close>.
\<close>

theorem Create_order_submitted_once:
  "ordersIssued w (snd (Create b data w)) \<le> 1
   \<and> ((m_SSHKeyLabels data = ListNull \<and> labels = []
          \<or> m_SSHKeyLabels data = ListValue (map StringValue labels))
        \<and> passesValidation b data w os
        \<and> resolvesTo b (validated b data w) labels ids
      \<longrightarrow> ordersIssued w (snd (Create b data w)) = 1
          \<and> (orderServer b (orderRequest data os ids) (orderWorld b data w labels) = Inr orderResp
                \<and> ord_OrderServiceIDs orderResp = []
              \<longrightarrow> Create b data w =
                    (failed [DiagError ''Server Order Failed'' (NoServiceIDs orderResp)],
                     issue b (CallOrderServer (orderRequest data os ids))
                       (orderWorld b data w labels)))
          \<and> (orderServer b (orderRequest data os ids) (orderWorld b data w labels) = Inr orderResp
                \<and> ord_OrderServiceIDs orderResp = serviceID # others
              \<longrightarrow> (\<forall>err w2.
                      waitForServerProvisioning b serviceID (30 * Minute)
                        (issue b (CallOrderServer (orderRequest data os ids))
                           (orderWorld b data w labels)) = (Inl err, w2)
                      \<longrightarrow> Create b data w =
                            (failed [DiagError ''Server Provisioning Timeout''
                                       (ProvisioningIncomplete serviceID err)], w2))
                  \<and> (\<forall>server w2.
                      waitForServerProvisioning b serviceID (30 * Minute)
                        (issue b (CallOrderServer (orderRequest data os ids))
                           (orderWorld b data w labels)) = (Inr server, w2)
                      \<longrightarrow> State (fst (Create b data w))
                            = Some (updateModelFromServer data server)
                          \<and> srv_ServiceID server = serviceID)
                  \<and> (\<forall>m. State (fst (Create b data w)) = Some m
                      \<longrightarrow> m_ServiceID m = Int64Value serviceID)))"
  (is "?once \<and> (?H \<longrightarrow> ?one \<and> (?E \<longrightarrow> ?X) \<and> (?N \<longrightarrow> ?T \<and> ?F \<and> ?S))")
proof -
  let ?request = "orderRequest data os ids"
  let ?v = "orderWorld b data w labels"
  let ?w1 = "issue b (CallOrderServer ?request) ?v"
  from Create_orders [of b data w]
  have once: ?once
    by (auto simp: ordersIssued_def newCalls_append)
  have inner: "?H \<longrightarrow> ?one \<and> (?E \<longrightarrow> ?X) \<and> (?N \<longrightarrow> ?T \<and> ?F \<and> ?S)"
  proof (intro impI, elim conjE)
    assume labels: "m_SSHKeyLabels data = ListNull \<and> labels = []
          \<or> m_SSHKeyLabels data = ListValue (map StringValue labels)"
      and valid: "passesValidation b data w os"
      and resolved: "resolvesTo b (validated b data w) labels ids"
    have reach: "Create b data w = Create_order b data [] ?request ?v"
      unfolding orderWorld_def by (rule Create_reaches_order [OF labels valid resolved])
    have one: ?one
      by (rule Create_order_logged(2) [OF labels valid resolved])
    have empty: "?E \<longrightarrow> ?X"
    proof (intro impI, elim conjE)
      assume "orderServer b ?request ?v = Inr orderResp" "ord_OrderServiceIDs orderResp = []"
      then show ?X
        by (simp add: reach Create_order_def OrderServer_def)
    qed
    have nonempty: "?N \<longrightarrow> ?T \<and> ?F \<and> ?S"
    proof (intro impI, elim conjE)
      assume ordered: "orderServer b ?request ?v = Inr orderResp"
        and first: "ord_OrderServiceIDs orderResp = serviceID # others"
      have timeout: ?T
      proof (intro allI impI)
        fix err w2
        assume "waitForServerProvisioning b serviceID (30 * Minute) ?w1 = (Inl err, w2)"
        with ordered first
        show "Create b data w =
                (failed [DiagError ''Server Provisioning Timeout''
                           (ProvisioningIncomplete serviceID err)], w2)"
          by (simp add: reach Create_order_def OrderServer_def)
      qed
      have found: ?F
      proof (intro allI impI)
        fix server w2
        assume wait: "waitForServerProvisioning b serviceID (30 * Minute) ?w1 = (Inr server, w2)"
        then have "fst (waitLoop b serviceID (now ?w1 + 30 * Minute) ?w1) = Inr server"
          by (simp add: waitForServerProvisioning_def)
        then have sid: "srv_ServiceID server = serviceID"
          by (rule waitLoop_success_serviceID)
        from ordered first wait
        have "State (fst (Create_order b data [] ?request ?v))
                = Some (updateModelFromServer data server)"
          by (simp add: Create_order_def OrderServer_def split: prod.splits option.splits)
        with sid show "State (fst (Create b data w)) = Some (updateModelFromServer data server)
                          \<and> srv_ServiceID server = serviceID"
          by (simp add: reach)
      qed
      have saved: ?S
      proof (intro allI impI)
        fix m assume "State (fst (Create b data w)) = Some m"
        then have "State (fst (Create_order b data [] ?request ?v)) = Some m"
          by (simp add: reach)
        from Create_order_saved_serviceID [OF ordered first this]
        show "m_ServiceID m = Int64Value serviceID" .
      qed
      show "?T \<and> ?F \<and> ?S"
        by (rule conjI [OF timeout conjI [OF found saved]])
    qed
    show "?one \<and> (?E \<longrightarrow> ?X) \<and> (?N \<longrightarrow> ?T \<and> ?F \<and> ?S)"
      by (rule conjI [OF one conjI [OF empty nonempty]])
  qed
  show ?thesis
    by (rule conjI [OF once inner])
qed

text \<open>The plan with the label \<open>deploy\<close>, on a backend that lists that key: an order
  answered with no service identifier fails Create after the one submission; an order
  answered with the identifiers 500 and 501 is followed by the wait for 500, and the
  state saved is the model updated from the server of service 500.\<close>

theorem Create_order_submitted_once_witness:
  "Create (shopBackend [keyDeploy] []) plan0 world0 =
     (failed [DiagError ''Server Order Failed'' (NoServiceIDs \<lparr>ord_OrderServiceIDs = []\<rparr>)],
      issue (shopBackend [keyDeploy] []) (CallOrderServer (orderReq0\<lparr>req_SSHKeyIDs := [3]\<rparr>))
        (orderWorld (shopBackend [keyDeploy] []) plan0 world0 [''deploy'']))
   \<and> ordersIssued world0 (snd (Create (shopBackend [keyDeploy] []) plan0 world0)) = 1
   \<and> State (fst (Create (shopBackend [keyDeploy] [500, 501]) plan0 world0))
       = Some (updateModelFromServer plan0 (mkServer ''srv-2'' 500))
   \<and> srv_ServiceID (mkServer ''srv-2'' 500) = 500
   \<and> ordersIssued world0 (snd (Create (shopBackend [keyDeploy] [500, 501]) plan0 world0)) = 1"
proof -
  let ?b1 = "shopBackend [keyDeploy] []" and ?b2 = "shopBackend [keyDeploy] [500, 501]"
  have keys: "getSSHKeys (shopBackend [keyDeploy] sids) v = Inr [keyDeploy]" for sids v
    by (simp add: shopBackend_def)
  have listed: "key_Label keyDeploy = ''deploy''" "key_ID keyDeploy = 3"
    by (simp_all add: keyDeploy_def mkKey_def)
  have labels: "m_SSHKeyLabels plan0 = ListNull \<and> [''deploy''] = []
                  \<or> m_SSHKeyLabels plan0 = ListValue (map StringValue [''deploy''])"
    by (simp add: plan0_def)
  have valid: "passesValidation (shopBackend [keyDeploy] sids) plan0 world0 ubuntu" for sids
    by (simp add: passesValidation_def FindSKUByProductName_cases shopBackend_def
        idleBackend_def plan0_def qualifies_def mkItem_def ubuntu_def)
  have resolved: "resolvesTo (shopBackend [keyDeploy] sids)
                    (validated (shopBackend [keyDeploy] sids) plan0 world0) [''deploy''] [3]"
    for sids
    by (simp add: resolvesTo_def keys listed)
  have request: "orderRequest plan0 ubuntu [3] = orderReq0\<lparr>req_SSHKeyIDs := [3]\<rparr>"
    by (simp add: orderRequest_def orderReq0_def plan0_def ubuntu_def)
  have answer: "orderServer (shopBackend [keyDeploy] sids) r v = Inr \<lparr>ord_OrderServiceIDs = sids\<rparr>"
    for sids r v
    by (simp add: shopBackend_def)
  note run1 = Create_order_submitted_once
                [where w = world0 and b = ?b1 and data = plan0 and labels = "[''deploy'']"
                   and os = ubuntu and ids = "[3]"
                   and orderResp = "\<lparr>ord_OrderServiceIDs = []\<rparr>",
                 THEN conjunct2, THEN mp, OF conjI [OF labels conjI [OF valid resolved]]]
  have e: "orderServer ?b1 (orderRequest plan0 ubuntu [3]) (orderWorld ?b1 plan0 world0 [''deploy''])
             = Inr \<lparr>ord_OrderServiceIDs = []\<rparr>
           \<and> ord_OrderServiceIDs \<lparr>ord_OrderServiceIDs = []\<rparr> = []"
    by (simp add: answer)
  note failed1 = run1 [THEN conjunct2, THEN conjunct1, THEN mp, OF e, unfolded request]
  note once1 = run1 [THEN conjunct1]
  let ?w1 = "issue ?b2 (CallOrderServer (orderRequest plan0 ubuntu [3]))
               (orderWorld ?b2 plan0 world0 [''deploy''])"
  have "waitLoop ?b2 500 (now ?w1 + 30 * Minute) ?w1
          = (Inr (mkServer ''srv-2'' 500), issue ?b2 CallGetServers ?w1)"
  proof (rule waitLoop_found)
    show "now ?w1 < now ?w1 + 30 * Minute" by (simp add: Minute_def Second_def)
    show "ctxErr ?b2 (now ?w1) = None" by (simp add: shopBackend_def idleBackend_def)
    show "getServers ?b2 ?w1 = Inr [mkServer ''srv-1'' 499, mkServer ''srv-2'' 500]"
      by (simp add: shopBackend_def)
    show "find (\<lambda>server. srv_ServiceID server = 500)
            [mkServer ''srv-1'' 499, mkServer ''srv-2'' 500] = Some (mkServer ''srv-2'' 500)"
      by (simp add: mkServer_def)
  qed
  then have wait: "waitForServerProvisioning ?b2 500 (30 * Minute) ?w1
          = (Inr (mkServer ''srv-2'' 500), issue ?b2 CallGetServers ?w1)"
    by (simp add: waitForServerProvisioning_def)
  note run2 = Create_order_submitted_once
                [where w = world0 and b = ?b2 and data = plan0 and labels = "[''deploy'']"
                   and os = ubuntu and ids = "[3]"
                   and orderResp = "\<lparr>ord_OrderServiceIDs = [500, 501]\<rparr>"
                   and serviceID = 500 and others = "[501]",
                 THEN conjunct2, THEN mp, OF conjI [OF labels conjI [OF valid resolved]]]
  have n: "orderServer ?b2 (orderRequest plan0 ubuntu [3]) (orderWorld ?b2 plan0 world0 [''deploy''])
             = Inr \<lparr>ord_OrderServiceIDs = [500, 501]\<rparr>
           \<and> ord_OrderServiceIDs \<lparr>ord_OrderServiceIDs = [500, 501]\<rparr> = 500 # [501]"
    by (simp add: answer)
  note saved2 = run2 [THEN conjunct2, THEN conjunct2, THEN mp, OF n, THEN conjunct2,
                      THEN conjunct1, rule_format, OF wait]
  note once2 = run2 [THEN conjunct1]
  from failed1 once1 saved2 once2 show ?thesis by simp
qed

section \<open>SSH key resource: Create\<close>

text \<open>
  Claim C9, as stated, fails in its last part: the stored public key is the one the
  backend lists, not the input. Here the plan's key ends with a line feed and the
  backend lists the created key without it; Create succeeds and stores the listed key.
\<close>

theorem SSHKey_Create_public_key_counterexample:
  "fst (SSHKey_Create trimmingBackend keyPlan world0)
     = \<lparr>Diagnostics = [],
        State = Some (keyPlan\<lparr>km_ID := Int64Value 8,
                               km_PublicKey := StringValue ''ssh-ed25519 AAAA deploy@host'',
                               km_CreatedAt := Int64Value 1700000000,
                               km_UpdatedAt := Int64Value 1700000000\<rparr>)\<rparr>
   \<and> StringValue ''ssh-ed25519 AAAA deploy@host'' \<noteq> km_PublicKey keyPlan"
  by (simp add: SSHKey_Create_def CreateSSHKey_def GetSSHKeyByLabel_def GetSSHKeys_def
      updateModelFromSSHKey_def trimmingBackend_def idleBackend_def keyPlan_def mkKey_def
      Let_def)

text \<open>
  Claim C9, amended. If the creation call fails, Create fails without a lookup. If it
  succeeds, Create makes exactly one lookup by label right after it; if the lookup fails
  (the list cannot be fetched or holds no key with the label) Create fails with the
  error "SSH Key Retrieval Failed" and stores nothing; otherwise it stores the model
  updated from the first listed key with that label, whose label is the input label and
  whose public key is the key the backend lists for it.
\<close>

theorem SSHKey_Create_follow_up_lookup:
  assumes createReq: "createReq = \<lparr>kreq_PublicKey = ValueString (km_PublicKey data),
                                     kreq_Label = ValueString (km_Label data)\<rparr>"
    and w1: "w1 = issue b (CallCreateSSHKey createReq) w"
  shows "(\<forall>err. createSSHKey b createReq w = Inl err
            \<longrightarrow> SSHKey_Create b data w =
                  (failed [DiagError ''SSH Key Creation Failed'' (UnableToCreateSSHKey err)], w1))
       \<and> (\<forall>created. createSSHKey b createReq w = Inr created
            \<longrightarrow> snd (SSHKey_Create b data w) = issue b CallGetSSHKeys w1
                \<and> (\<forall>err. fst (GetSSHKeyByLabel b (ValueString (km_Label data)) w1) = Inl err
                      \<longrightarrow> fst (SSHKey_Create b data w) =
                            failed [DiagError ''SSH Key Retrieval Failed''
                                      (UnableToRetrieveSSHKey err)])
                \<and> (\<forall>sshKey. fst (GetSSHKeyByLabel b (ValueString (km_Label data)) w1) = Inr sshKey
                      \<longrightarrow> fst (SSHKey_Create b data w) =
                            \<lparr>Diagnostics = [], State = Some (updateModelFromSSHKey data sshKey)\<rparr>
                          \<and> (\<exists>keys. getSSHKeys b w1 = Inr keys
                                \<and> find (\<lambda>k. key_Label k = ValueString (km_Label data)) keys
                                    = Some sshKey)
                          \<and> km_Label (updateModelFromSSHKey data sshKey)
                              = StringValue (ValueString (km_Label data))
                          \<and> km_PublicKey (updateModelFromSSHKey data sshKey)
                              = StringValue (key_Key sshKey)))"
proof -
  let ?label = "ValueString (km_Label data)"
  have failedCreate: "SSHKey_Create b data w =
          (failed [DiagError ''SSH Key Creation Failed'' (UnableToCreateSSHKey err)], w1)"
    if "createSSHKey b createReq w = Inl err" for err
    using that by (simp add: SSHKey_Create_def CreateSSHKey_def Let_def createReq w1)
  have lookup: "SSHKey_Create b data w =
      (case GetSSHKeyByLabel b ?label w1 of
         (Inl err, w2) \<Rightarrow>
           (failed [DiagError ''SSH Key Retrieval Failed'' (UnableToRetrieveSSHKey err)], w2)
       | (Inr sshKey, w2) \<Rightarrow>
           (\<lparr>Diagnostics = [], State = Some (updateModelFromSSHKey data sshKey)\<rparr>, w2))"
    if "createSSHKey b createReq w = Inr created" for created
    using that by (simp add: SSHKey_Create_def CreateSSHKey_def Let_def createReq w1)
  obtain r where r: "GetSSHKeyByLabel b ?label w1 = (r, issue b CallGetSSHKeys w1)"
    using GetSSHKeyByLabel_world [of b ?label w1]
    by (cases "GetSSHKeyByLabel b ?label w1") simp
  have world: "snd (SSHKey_Create b data w) = issue b CallGetSSHKeys w1"
    if "createSSHKey b createReq w = Inr created" for created
    using lookup [OF that] r by (cases r) simp_all
  have failedLookup: "fst (SSHKey_Create b data w) =
          failed [DiagError ''SSH Key Retrieval Failed'' (UnableToRetrieveSSHKey err)]"
    if "createSSHKey b createReq w = Inr created" "fst (GetSSHKeyByLabel b ?label w1) = Inl err"
    for created err
    using lookup [OF that(1)] r that(2) by simp
  have stored: "fst (SSHKey_Create b data w) =
          \<lparr>Diagnostics = [], State = Some (updateModelFromSSHKey data sshKey)\<rparr>"
    if "createSSHKey b createReq w = Inr created" "fst (GetSSHKeyByLabel b ?label w1) = Inr sshKey"
    for created sshKey
    using lookup [OF that(1)] r that(2) by simp
  have listed: "(\<exists>keys. getSSHKeys b w1 = Inr keys
                    \<and> find (\<lambda>k. key_Label k = ?label) keys = Some sshKey)
                \<and> km_Label (updateModelFromSSHKey data sshKey) = StringValue ?label
                \<and> km_PublicKey (updateModelFromSSHKey data sshKey) = StringValue (key_Key sshKey)"
    if "fst (GetSSHKeyByLabel b ?label w1) = Inr sshKey" for sshKey
  proof -
    from that obtain keys where keys: "getSSHKeys b w1 = Inr keys"
      "find (\<lambda>k. key_Label k = ?label) keys = Some sshKey"
      unfolding GetSSHKeyByLabel_found by blast
    then have "key_Label sshKey = ?label" by (auto simp: find_Some_iff)
    with keys show ?thesis by (auto simp: updateModelFromSSHKey_def)
  qed
  from failedCreate world failedLookup stored listed show ?thesis by blast
qed

theorem SSHKey_Create_follow_up_lookup_witness:
  "fst (SSHKey_Create trimmingBackend keyPlan world0) =
     \<lparr>Diagnostics = [],
      State = Some (updateModelFromSSHKey keyPlan (mkKey 8 ''deploy'' ''ssh-ed25519 AAAA deploy@host''))\<rparr>
   \<and> km_Label (updateModelFromSSHKey keyPlan (mkKey 8 ''deploy'' ''ssh-ed25519 AAAA deploy@host''))
       = StringValue ''deploy''
   \<and> km_PublicKey (updateModelFromSSHKey keyPlan (mkKey 8 ''deploy'' ''ssh-ed25519 AAAA deploy@host''))
       = StringValue ''ssh-ed25519 AAAA deploy@host''"
proof -
  let ?req = "\<lparr>kreq_PublicKey = ValueString (km_PublicKey keyPlan),
               kreq_Label = ValueString (km_Label keyPlan)\<rparr>"
  let ?w1 = "issue trimmingBackend (CallCreateSSHKey ?req) world0"
  let ?key = "mkKey 8 ''deploy'' ''ssh-ed25519 AAAA deploy@host''"
  have created: "createSSHKey trimmingBackend ?req world0 = Inr \<lparr>kresp_ID = 8\<rparr>"
    by (simp add: trimmingBackend_def)
  have label: "ValueString (km_Label keyPlan) = ''deploy''"
    by (simp add: keyPlan_def)
  have found: "fst (GetSSHKeyByLabel trimmingBackend (ValueString (km_Label keyPlan)) ?w1)
                 = Inr ?key"
    unfolding label
    by (simp add: GetSSHKeyByLabel_result trimmingBackend_def mkKey_def)
  note lookup = SSHKey_Create_follow_up_lookup
                  [OF refl refl, of trimmingBackend keyPlan world0, THEN conjunct2,
                   rule_format, OF created]
  note stored = lookup [THEN conjunct2, THEN conjunct2, rule_format, OF found]
  have "key_Key ?key = ''ssh-ed25519 AAAA deploy@host''" by (simp add: mkKey_def)
  with stored show ?thesis by (simp add: label)
qed

end
